theory Spec2Isabelle
  imports Main
begin

section \<open>Data model\<close>

text \<open>
  The structs of \<^verbatim>\<open>cmd/poll.go\<close>: a configured repository, the repository
  configuration read from \<^verbatim>\<open>repos.yaml\<close>, and the part of the tracker's issue that
  the driver reads (its key and \<^verbatim>\<open>Fields.Summary\<close>; the body is opaque).
\<close>

record Repository =
  URL :: string
  Branch :: string

record ReposConfig =
  Repositories :: "Repository list"

record IssueScheme =
  Key :: string
  Summary :: string

text \<open>One page of a JQL search: the issues and the cursor of the next page.\<close>

record SearchPage =
  Issues :: "IssueScheme list"
  NextPageToken :: string

text \<open>
  The comment body of \<^verbatim>\<open>cmd/comment.go\<close>: a tree of nodes with a version, a
  type, a text and child nodes (Go's zero values are \<open>0\<close>, the empty string and no
  children).
\<close>

datatype CommentNodeScheme =
  CommentNode (Version: int) (Type: string) (Text: string) (Content: "CommentNodeScheme list")

datatype CommentPayloadScheme = CommentPayload (Body: CommentNodeScheme)

subsection \<open>Errors\<close>

datatype errno = EEXIST | ENOENT | EFAULT string

datatype err =
    PathError string string errno
  | ErrorString string
  | WrapError string err string
  | ExitError string
  | ClientError string

text \<open>\<^verbatim>\<open>errors.Is(err, os.ErrExist)\<close> unwraps; \<^verbatim>\<open>os.IsNotExist\<close> does not.\<close>

fun errors_Is_ErrExist :: "err \<Rightarrow> bool" where
  "errors_Is_ErrExist (PathError opn path e) = (e = EEXIST)"
| "errors_Is_ErrExist (WrapError pre e post) = errors_Is_ErrExist e"
| "errors_Is_ErrExist (ErrorString m) = False"
| "errors_Is_ErrExist (ExitError m) = False"
| "errors_Is_ErrExist (ClientError m) = False"

fun os_IsNotExist :: "err \<Rightarrow> bool" where
  "os_IsNotExist (PathError opn path e) = (e = ENOENT)"
| "os_IsNotExist (WrapError pre e post) = False"
| "os_IsNotExist (ErrorString m) = False"
| "os_IsNotExist (ExitError m) = False"
| "os_IsNotExist (ClientError m) = False"

fun errno_Error :: "errno \<Rightarrow> string" where
  "errno_Error EEXIST = ''file exists''"
| "errno_Error ENOENT = ''no such file or directory''"
| "errno_Error (EFAULT m) = m"

fun err_Error :: "err \<Rightarrow> string" where
  "err_Error (PathError opn path e) = opn @ '' '' @ path @ '': '' @ errno_Error e"
| "err_Error (ErrorString m) = m"
| "err_Error (WrapError pre e post) = pre @ err_Error e @ post"
| "err_Error (ExitError m) = m"
| "err_Error (ClientError m) = m"

subsection \<open>Paths (package path/filepath, Unix)\<close>

fun split_sep :: "string \<Rightarrow> string list" where
  "split_sep [] = [[]]"
| "split_sep (c # cs) =
     (if c = CHR ''/'' then [] # split_sep cs
      else (case split_sep cs of [] \<Rightarrow> [[c]] | x # xs \<Rightarrow> (c # x) # xs))"

fun join_sep :: "string list \<Rightarrow> string" where
  "join_sep [] = []"
| "join_sep [x] = x"
| "join_sep (x # y # ys) = x @ ''/'' @ join_sep (y # ys)"

text \<open>
  \<^verbatim>\<open>filepath.Clean\<close>: empty and \<^verbatim>\<open>.\<close> elements are dropped, an inner
  \<^verbatim>\<open>..\<close> removes the element before it, a \<^verbatim>\<open>..\<close> at the start of a rooted
  path is dropped, and the empty result is \<^verbatim>\<open>.\<close>. The stack holds the kept
  elements, last first.
\<close>

definition clean_step :: "bool \<Rightarrow> string list \<Rightarrow> string \<Rightarrow> string list" where
  "clean_step rooted stack c =
     (if c = [] \<or> c = ''.'' then stack
      else if c = ''..'' then
        (case stack of
           [] \<Rightarrow> (if rooted then [] else [''..''])
         | t # ts \<Rightarrow> (if t = ''..'' then ''..'' # stack else ts))
      else c # stack)"

definition is_abs :: "string \<Rightarrow> bool" where
  "is_abs p = (case p of [] \<Rightarrow> False | c # cs \<Rightarrow> c = CHR ''/'')"

definition filepath_Clean :: "string \<Rightarrow> string" where
  "filepath_Clean p =
     (let body = join_sep (rev (foldl (clean_step (is_abs p)) [] (split_sep p)))
      in if is_abs p then CHR ''/'' # body
         else if body = [] then ''.'' else body)"

text \<open>
  \<^verbatim>\<open>filepath.Join\<close>: the elements from the first non-empty one on are joined with
  the separator and cleaned; with no non-empty element the result is empty.
\<close>

definition filepath_Join :: "string list \<Rightarrow> string" where
  "filepath_Join elems =
     (case dropWhile (\<lambda>e. e = []) elems of
        [] \<Rightarrow> []
      | e # es \<Rightarrow> filepath_Clean (join_sep (e # es)))"

text \<open>\<^verbatim>\<open>strings.SplitN(s, "/", 2)\<close>: cut at the first separator, if there is one.\<close>

definition strings_SplitN2 :: "string \<Rightarrow> string list" where
  "strings_SplitN2 s =
     (let a = takeWhile (\<lambda>c. c \<noteq> CHR ''/'') s; b = dropWhile (\<lambda>c. c \<noteq> CHR ''/'') s
      in case b of [] \<Rightarrow> [s] | c # rest \<Rightarrow> [a, rest])"

subsection \<open>The world outside the process\<close>

datatype level = Debug | Info | Warn | Error

text \<open>
  What the process does to the outside, in the order it does it: a log call (level,
  message, fields), a search request to the tracker (query, page size, cursor), a
  goroutine started on \<^verbatim>\<open>runAgent\<close>, a child process run (directory, arguments),
  and a comment submitted to the tracker.
\<close>

datatype event =
    Log level string "(string \<times> string) list"
  | SearchJQL string nat string
  | Go_runAgent string IssueScheme ReposConfig
  | Exec string "string list"
  | CommentAdd string CommentPayloadScheme

text \<open>
  The file system is keyed by absolute, cleaned paths: the directories that exist and
  the regular files with their contents. \<open>trace\<close> is the list of events so far.
\<close>

record world =
  cwd :: string
  dirs :: "string set"
  files :: "string \<rightharpoonup> string"
  trace :: "event list"

text \<open>
  What the model does not decide is taken from the environment: a system call that
  fails for a reason other than the one the model tracks (permissions, a missing
  parent, I/O), the YAML and JSON libraries, the outcome and output of child processes,
  and the settings read through viper.
\<close>

record env =
  mkdir_fault :: "string \<Rightarrow> string option"
  create_fault :: "string \<Rightarrow> string option"
  read_fault :: "string \<Rightarrow> string option"
  getwd_fault :: "string option"
  yaml_Unmarshal :: "string \<Rightarrow> string + ReposConfig"
  json_MarshalIndent :: "IssueScheme \<Rightarrow> string + string"
  cmd_result :: "string \<Rightarrow> string list \<Rightarrow> string option \<times> string"
  new_client_fault :: "string \<Rightarrow> string option"
  setting :: "string \<Rightarrow> string"

definition emit :: "event \<Rightarrow> world \<Rightarrow> world" where
  "emit e w = w\<lparr>trace := trace w @ [e]\<rparr>"

definition logf :: "level \<Rightarrow> string \<Rightarrow> (string \<times> string) list \<Rightarrow> world \<Rightarrow> world" where
  "logf l m fs w = emit (Log l m fs) w"

definition resolve :: "world \<Rightarrow> string \<Rightarrow> string" where
  "resolve w p = (if is_abs p then filepath_Clean p else filepath_Join [cwd w, p])"

definition path_exists :: "world \<Rightarrow> string \<Rightarrow> bool" where
  "path_exists w p = (resolve w p \<in> dirs w \<or> files w (resolve w p) \<noteq> None)"

definition is_dir :: "world \<Rightarrow> string \<Rightarrow> bool" where
  "is_dir w p = (resolve w p \<in> dirs w)"

text \<open>
  \<^verbatim>\<open>os.Mkdir\<close>: exclusive creation. An existing path is \<^verbatim>\<open>EEXIST\<close>;
  otherwise the environment may refuse; otherwise the directory exists afterwards.
\<close>

definition os_Mkdir :: "env \<Rightarrow> string \<Rightarrow> world \<Rightarrow> err option \<times> world" where
  "os_Mkdir ev name w =
     (if path_exists w name then (Some (PathError ''mkdir'' name EEXIST), w)
      else (case mkdir_fault ev name of
              Some m \<Rightarrow> (Some (PathError ''mkdir'' name (EFAULT m)), w)
            | None \<Rightarrow> (None, w\<lparr>dirs := insert (resolve w name) (dirs w)\<rparr>)))"

text \<open>\<^verbatim>\<open>os.MkdirAll\<close>: an existing directory is success.\<close>

definition os_MkdirAll :: "env \<Rightarrow> string \<Rightarrow> world \<Rightarrow> err option \<times> world" where
  "os_MkdirAll ev name w =
     (if resolve w name \<in> dirs w then (None, w)
      else if files w (resolve w name) \<noteq> None
        then (Some (PathError ''mkdir'' name (EFAULT ''not a directory'')), w)
      else (case mkdir_fault ev name of
              Some m \<Rightarrow> (Some (PathError ''mkdir'' name (EFAULT m)), w)
            | None \<Rightarrow> (None, w\<lparr>dirs := insert (resolve w name) (dirs w)\<rparr>)))"

text \<open>\<^verbatim>\<open>os.Create\<close>: the file exists and is empty afterwards.\<close>

definition os_Create :: "env \<Rightarrow> string \<Rightarrow> world \<Rightarrow> err option \<times> world" where
  "os_Create ev name w =
     (if resolve w name \<in> dirs w
        then (Some (PathError ''open'' name (EFAULT ''is a directory'')), w)
      else (case create_fault ev name of
              Some m \<Rightarrow> (Some (PathError ''open'' name (EFAULT m)), w)
            | None \<Rightarrow> (None, w\<lparr>files := (files w)(resolve w name \<mapsto> [])\<rparr>)))"

definition os_ReadFile :: "env \<Rightarrow> string \<Rightarrow> world \<Rightarrow> err + string" where
  "os_ReadFile ev name w =
     (case files w (resolve w name) of
        None \<Rightarrow>
          (if resolve w name \<in> dirs w
             then Inl (PathError ''read'' name (EFAULT ''is a directory''))
           else Inl (PathError ''open'' name ENOENT))
      | Some content \<Rightarrow>
          (case read_fault ev name of
             Some m \<Rightarrow> Inl (PathError ''open'' name (EFAULT m))
           | None \<Rightarrow> Inr content))"

text \<open>\<^verbatim>\<open>filepath.Abs\<close> asks for the working directory only for a relative path.\<close>

definition filepath_Abs :: "env \<Rightarrow> world \<Rightarrow> string \<Rightarrow> err + string" where
  "filepath_Abs ev w p =
     (if is_abs p then Inr (filepath_Clean p)
      else (case getwd_fault ev of
              Some m \<Rightarrow> Inl (PathError ''getwd'' [] (EFAULT m))
            | None \<Rightarrow> Inr (filepath_Join [cwd w, p])))"

section \<open>The workspace claim: handleIssue (cmd/poll.go)\<close>

definition workspacesDir :: string where
  "workspacesDir = ''workspaces''"

definition handleIssue :: "env \<Rightarrow> ReposConfig \<Rightarrow> IssueScheme \<Rightarrow> world \<Rightarrow> err option \<times> world" where
  "handleIssue ev reposConfig issue w =
     (let workspaceDir = filepath_Join [workspacesDir, Key issue]
      in case os_Mkdir ev workspaceDir w of
           (Some e, w1) \<Rightarrow>
             (if errors_Is_ErrExist e
                then (None, logf Debug ''issue was already handled'' [(''key'', Key issue)] w1)
              else (Some e,
                    logf Error ''failed to create workspace directory''
                      [(''error'', err_Error e), (''key'', Key issue), (''directory'', workspaceDir)] w1))
         | (None, w1) \<Rightarrow>
             (None,
              emit (Go_runAgent workspaceDir issue reposConfig)
                (logf Info ''processing issue'' [(''key'', Key issue)] w1)))"

section \<open>Worktree provisioning (cmd/poll.go)\<close>

text \<open>
  Running a child process to completion (\<^verbatim>\<open>cmd.Run\<close>, \<^verbatim>\<open>cmd.CombinedOutput\<close>):
  the call is an event; a working directory that does not exist fails the start;
  otherwise the environment gives the exit status and the combined output.
\<close>

definition exec_Run :: "env \<Rightarrow> string \<Rightarrow> string list \<Rightarrow> world \<Rightarrow> (err option \<times> string) \<times> world" where
  "exec_Run ev dir argv w =
     (let w1 = emit (Exec dir argv) w
      in if \<not> is_dir w dir then ((Some (PathError ''chdir'' dir ENOENT), []), w1)
         else (case cmd_result ev dir argv of
                 (Some m, out) \<Rightarrow> ((Some (ExitError m), out), w1)
               | (None, out) \<Rightarrow> ((None, out), w1)))"

text \<open>
  \<^verbatim>\<open>git worktree add -b <branch> <dir> <base>\<close> run inside the clone: when git
  succeeds the worktree directory exists.
\<close>

definition git_worktree_add ::
  "env \<Rightarrow> string \<Rightarrow> string \<Rightarrow> string \<Rightarrow> string \<Rightarrow> world \<Rightarrow> (err option \<times> string) \<times> world" where
  "git_worktree_add ev repoDir branchName worktreeDir base w =
     (case exec_Run ev repoDir [''git'', ''worktree'', ''add'', ''-b'', branchName, worktreeDir, base] w of
        ((Some e, out), w1) \<Rightarrow> ((Some e, out), w1)
      | ((None, out), w1) \<Rightarrow> ((None, out), w1\<lparr>dirs := insert worktreeDir (dirs w1)\<rparr>))"

text \<open>The logger is the list of fields it attaches to every entry.\<close>

definition createWorktree ::
  "env \<Rightarrow> string \<Rightarrow> string \<Rightarrow> Repository \<Rightarrow> (string \<times> string) list \<Rightarrow> world \<Rightarrow> err option \<times> world" where
  "createWorktree ev workspaceDir issueKey repo logger w =
     (let parts = strings_SplitN2 (URL repo)
      in if length parts \<noteq> 2
           then (Some (ErrorString (''invalid repository URL format: '' @ URL repo)), w)
         else
           (let repoName = parts ! 1;
                repoDir = filepath_Join [''repos'', repoName];
                worktreeDir = filepath_Join [workspaceDir, repoName]
            in case filepath_Abs ev w repoDir of
                 Inl e \<Rightarrow>
                   (Some (WrapError (''failed to get absolute path for '' @ repoDir @ '': '') e []), w)
               | Inr absoluteRepoDir \<Rightarrow>
                   (case filepath_Abs ev w worktreeDir of
                      Inl e \<Rightarrow>
                        (Some (WrapError (''failed to get absolute path for '' @ worktreeDir @ '': '') e []), w)
                    | Inr absoluteWorktreeDir \<Rightarrow>
                        (let branchName = ''warp/'' @ issueKey @ ''-resolve'';
                             w1 = logf Info ''creating git worktree''
                                    (logger @ [(''repo'', repoName), (''branch'', branchName),
                                               (''worktreeDir'', absoluteWorktreeDir)]) w
                         in case git_worktree_add ev absoluteRepoDir branchName absoluteWorktreeDir
                                   (Branch repo) w1 of
                              ((Some e, out), w2) \<Rightarrow>
                                (Some (WrapError ''failed to create worktree: '' e
                                         ('' (output: '' @ out @ '')'')), w2)
                            | ((None, out), w2) \<Rightarrow>
                                (None,
                                 logf Info ''git worktree created successfully''
                                   (logger @ [(''repo'', repoName),
                                              (''worktreeDir'', absoluteWorktreeDir)]) w2)))))"

text \<open>The loop over the repositories stops at the first failure.\<close>

fun forRepositories ::
  "env \<Rightarrow> string \<Rightarrow> string \<Rightarrow> (string \<times> string) list \<Rightarrow> Repository list \<Rightarrow> world \<Rightarrow> err option \<times> world" where
  "forRepositories ev workspaceDir issueKey logger [] w = (None, w)"
| "forRepositories ev workspaceDir issueKey logger (repo # repos) w =
     (case createWorktree ev workspaceDir issueKey repo logger w of
        (Some e, w1) \<Rightarrow>
          (Some (WrapError (''failed to create worktree for '' @ URL repo @ '': '') e []), w1)
      | (None, w1) \<Rightarrow> forRepositories ev workspaceDir issueKey logger repos w1)"

definition setupRepositoryWorktrees ::
  "env \<Rightarrow> string \<Rightarrow> string \<Rightarrow> ReposConfig \<Rightarrow> (string \<times> string) list \<Rightarrow> world \<Rightarrow> err option \<times> world" where
  "setupRepositoryWorktrees ev workspaceDir issueKey reposConfig logger w =
     (if length (Repositories reposConfig) = 0
        then (None, logf Debug ''no repositories configured, skipping worktree setup'' logger w)
      else forRepositories ev workspaceDir issueKey logger (Repositories reposConfig) w)"

section \<open>Agent dispatch: runAgent (cmd/poll.go)\<close>

definition agent_prompt :: "IssueScheme \<Rightarrow> string \<Rightarrow> string \<Rightarrow> string" where
  "agent_prompt issue issueJSON workspaceDir =
     ''\<newline>Address the following Jira issue to the best of your ability. You are given information about the issue in a simplified XML format.\<newline><issue-key>''
     @ Key issue @ ''</issue-key>\<newline><issue-summary>''
     @ Summary issue @ ''</issue-summary>\<newline><issue>''
     @ issueJSON @ ''</issue>\<newline>\<newline>As you make progress on the issue, you can post comments by running this command:\<newline><comment-command>\<newline>warp-jira-agent comment --issue {issue-key} ''
     @ [CHR 0x22] @ ''{comment-text}'' @ [CHR 0x22]
     @ ''\<newline></comment-command>\<newline>\<newline><system-reminder>DO NOT respond in XML, even though the issue description uses XML</system-reminder>''
     @ [CHR 0x09, CHR 0x09]
     @ ''\<newline><system-reminder>Only create or modify files within ''
     @ workspaceDir @ '', your workspace directory.</system-reminder>\<newline>''"

text \<open>
  The body of the goroutine. The child's combined output is written to the log file;
  what else the agent does inside its workspace is not modelled.
\<close>

definition runAgent :: "env \<Rightarrow> string \<Rightarrow> IssueScheme \<Rightarrow> ReposConfig \<Rightarrow> world \<Rightarrow> world" where
  "runAgent ev workspaceDir issue reposConfig w =
     (let outputLogPath = filepath_Join [workspaceDir, ''output.log''];
          logger = [(''key'', Key issue), (''logPath'', outputLogPath)]
      in case os_Create ev outputLogPath w of
           (Some e, w1) \<Rightarrow>
             logf Error ''failed to create output log file'' (logger @ [(''error'', err_Error e)]) w1
         | (None, w1) \<Rightarrow>
             (case setupRepositoryWorktrees ev workspaceDir (Key issue) reposConfig logger w1 of
                (Some e, w2) \<Rightarrow>
                  logf Error ''failed to setup repository worktrees''
                    (logger @ [(''error'', err_Error e)]) w2
              | (None, w2) \<Rightarrow>
                  (case json_MarshalIndent ev issue of
                     Inl m \<Rightarrow>
                       logf Error ''failed to marshal issue to JSON'' (logger @ [(''error'', m)]) w2
                   | Inr issueJSON \<Rightarrow>
                       (let prompt = agent_prompt issue issueJSON workspaceDir;
                            profileID = setting ev ''profile_id'';
                            args = [''agent'', ''run'', ''--prompt'', prompt, ''--debug'']
                                   @ (if profileID \<noteq> [] then [''--profile'', profileID] else []);
                            w3 = (if profileID \<noteq> []
                                    then logf Info ''using warp profile for warp-cli''
                                           (logger @ [(''profile_id'', profileID)]) w2
                                  else w2);
                            w4 = logf Info ''starting warp agent'' logger w3
                        in case exec_Run ev workspaceDir (''warp-cli-dev'' # args) w4 of
                             ((r, out), w5) \<Rightarrow>
                               (let w6 = w5\<lparr>files := (files w5)(resolve w5 outputLogPath \<mapsto> out)\<rparr>
                                in case r of
                                     Some e \<Rightarrow>
                                       logf Error ''warp agent command failed''
                                         (logger @ [(''error'', err_Error e)]) w6
                                   | None \<Rightarrow> logf Info ''warp agent completed'' logger w6)))))"

section \<open>Startup configuration (cmd/poll.go, cmd/client.go)\<close>

fun itoa :: "nat \<Rightarrow> string" where
  "itoa n =
     (if n < 10 then [char_of (48 + n)]
      else itoa (n div 10) @ [char_of (48 + n mod 10)])"

declare itoa.simps [simp del]

definition loadReposConfig :: "env \<Rightarrow> world \<Rightarrow> (err + ReposConfig) \<times> world" where
  "loadReposConfig ev w =
     (case os_ReadFile ev ''repos.yaml'' w of
        Inl e \<Rightarrow>
          (if os_IsNotExist e
             then (Inr \<lparr>Repositories = []\<rparr>,
                   logf Warn ''repos.yaml not found, repository setup will be skipped'' [] w)
           else (Inl (WrapError ''failed to read repos.yaml: '' e []), w))
      | Inr data \<Rightarrow>
          (case yaml_Unmarshal ev data of
             Inl m \<Rightarrow> (Inl (WrapError ''failed to parse repos.yaml: '' (ErrorString m) []), w)
           | Inr config \<Rightarrow>
               (Inr config,
                logf Info ''loaded repository configuration''
                  [(''count'', itoa (length (Repositories config)))] w)))"

text \<open>\<^verbatim>\<open>NewJiraClient\<close>: only whether a client is obtained matters here.\<close>

definition NewJiraClient :: "env \<Rightarrow> err option" where
  "NewJiraClient ev =
     (if setting ev ''host'' = [] then Some (ErrorString ''host is required'')
      else if setting ev ''email'' = [] then Some (ErrorString ''email is required'')
      else if setting ev ''token'' = [] then Some (ErrorString ''token is required'')
      else (case new_client_fault ev (setting ev ''host'') of
              Some m \<Rightarrow> Some (WrapError ''failed to create Atlassian client: '' (ErrorString m) [])
            | None \<Rightarrow> None))"

section \<open>The drain: searchIssues (cmd/poll.go)\<close>

text \<open>
  The tracker answers a search request with an error (and perhaps an HTTP response:
  status and body) or with a page. Its answer may depend on the number of requests the
  drain has made before, on the query and on the cursor.
\<close>

type_synonym response = "string \<times> string"

type_synonym search_client = "nat \<Rightarrow> string \<Rightarrow> string \<Rightarrow> (err \<times> response option) + SearchPage"

type_synonym handler = "IssueScheme \<Rightarrow> world \<Rightarrow> err option \<times> world"

definition pageSize :: nat where
  "pageSize = 50"

text \<open>The inner loop over one page's issues returns at the first handler error.\<close>

fun forIssues :: "handler \<Rightarrow> IssueScheme list \<Rightarrow> world \<Rightarrow> err option \<times> world" where
  "forIssues callback [] w = (None, w)"
| "forIssues callback (issue # issues) w =
     (case callback issue w of
        (Some e, w1) \<Rightarrow> (Some e, w1)
      | (None, w1) \<Rightarrow> forIssues callback issues w1)"

text \<open>
  The page loop has no bound of its own: it ends when a fetch fails, a handler fails or
  a page comes with an empty cursor. A drain that never ends has no result (\<open>None\<close>).
\<close>

partial_function (option) searchIssues_loop ::
  "search_client \<Rightarrow> string \<Rightarrow> handler \<Rightarrow> nat \<Rightarrow> string \<Rightarrow> world \<Rightarrow> (err option \<times> world) option" where
  "searchIssues_loop client jql callback n nextPageToken w =
     (case client n jql nextPageToken of
        Inl (e, response) \<Rightarrow>
          Some (Some e,
                (case response of
                   Some (status, body) \<Rightarrow>
                     logf Error ''jira search failed''
                       [(''response.status'', status), (''response.body'', body)]
                       (emit (SearchJQL jql pageSize nextPageToken) w)
                 | None \<Rightarrow> emit (SearchJQL jql pageSize nextPageToken) w))
      | Inr result \<Rightarrow>
          (case forIssues callback (Issues result) (emit (SearchJQL jql pageSize nextPageToken) w) of
             (Some e, w2) \<Rightarrow> Some (Some e, w2)
           | (None, w2) \<Rightarrow>
               (if NextPageToken result = [] then Some (None, w2)
                else searchIssues_loop client jql callback (Suc n) (NextPageToken result) w2)))"

definition searchIssues ::
  "search_client \<Rightarrow> string \<Rightarrow> handler \<Rightarrow> world \<Rightarrow> (err option \<times> world) option" where
  "searchIssues client label callback w =
     (let w0 = logf Info ''Searching for Jira issues'' [(''label'', label)] w;
          jql = ''labels = '' @ label @ '' ORDER BY created DESC''
      in case searchIssues_loop client jql callback 0 [] w0 of
           None \<Rightarrow> None
         | Some (Some e, w1) \<Rightarrow> Some (Some e, w1)
         | Some (None, w1) \<Rightarrow>
             Some (None, logf Info ''Finished searching for Jira issues'' [(''label'', label)] w1))"

section \<open>The poller (cmd/poll.go)\<close>

text \<open>
  The ticks that fire before the context is cancelled are the list of tracker
  behaviours, one per tick. A search error is logged and the loop goes on; after the
  last tick the context is done.
\<close>

fun ticker_loop ::
  "env \<Rightarrow> search_client list \<Rightarrow> string \<Rightarrow> ReposConfig \<Rightarrow> world \<Rightarrow> (err option \<times> world) option" where
  "ticker_loop ev [] label reposConfig w = Some (None, logf Info ''polling stopped'' [] w)"
| "ticker_loop ev (client # clients) label reposConfig w =
     (case searchIssues client label (handleIssue ev reposConfig) w of
        None \<Rightarrow> None
      | Some (Some e, w1) \<Rightarrow>
          ticker_loop ev clients label reposConfig
            (logf Error ''failed to search issues'' [(''error'', err_Error e)] w1)
      | Some (None, w1) \<Rightarrow> ticker_loop ev clients label reposConfig w1)"

definition pollForNewIssues ::
  "env \<Rightarrow> search_client list \<Rightarrow> string \<Rightarrow> ReposConfig \<Rightarrow> world \<Rightarrow> (err option \<times> world) option" where
  "pollForNewIssues ev clients label reposConfig w =
     (case os_MkdirAll ev workspacesDir w of
        (Some e, w1) \<Rightarrow>
          Some (Some e, logf Error ''failed to create workspaces directory'' [(''error'', err_Error e)] w1)
      | (None, w1) \<Rightarrow> ticker_loop ev clients label reposConfig w1)"

text \<open>The \<^verbatim>\<open>poll\<close> command: every startup error is returned before any polling.\<close>

definition pollCmd_RunE :: "env \<Rightarrow> search_client list \<Rightarrow> world \<Rightarrow> (err option \<times> world) option" where
  "pollCmd_RunE ev clients w =
     (case NewJiraClient ev of
        Some e \<Rightarrow> Some (Some e, w)
      | None \<Rightarrow>
          (let label = setting ev ''label''
           in if label = [] then Some (Some (ErrorString ''label is required''), w)
              else (case loadReposConfig ev w of
                      (Inl e, w1) \<Rightarrow> Some (Some e, w1)
                    | (Inr reposConfig, w1) \<Rightarrow> pollForNewIssues ev clients label reposConfig w1)))"

section \<open>The comment publisher: addComment (cmd/comment.go)\<close>

type_synonym comment_client =
  "string \<Rightarrow> CommentPayloadScheme \<Rightarrow> (err \<times> response option) + string"

definition addComment :: "comment_client \<Rightarrow> string \<Rightarrow> string \<Rightarrow> world \<Rightarrow> err option \<times> world" where
  "addComment client issueKey commentText w =
     (let w1 = logf Info ''adding comment to issue'' [(''issue'', issueKey)] w;
          payload = CommentPayload
                      (CommentNode 1 ''doc'' []
                         [CommentNode 0 ''paragraph'' []
                            [CommentNode 0 ''text'' commentText []]]);
          w2 = emit (CommentAdd issueKey payload) w1
      in case client issueKey payload of
           Inl (e, response) \<Rightarrow>
             (Some e,
              (case response of
                 Some (status, body) \<Rightarrow>
                   logf Error ''failed to add comment''
                     [(''error'', err_Error e), (''response.status'', status), (''response.body'', body)] w2
               | None \<Rightarrow> w2))
         | Inr commentID \<Rightarrow>
             (None,
              logf Info ''successfully added comment''
                [(''issue'', issueKey), (''commentId'', commentID)] w2))"

text \<open>
  Reading a document back: the text of a node followed by the texts of its children,
  in order.
\<close>

fun flatten_text :: "CommentNodeScheme \<Rightarrow> string" where
  "flatten_text (CommentNode v ty txt cs) = txt @ concat (map flatten_text cs)"

fun submitted :: "event list \<Rightarrow> (string \<times> CommentPayloadScheme) list" where
  "submitted [] = []"
| "submitted (CommentAdd k p # es) = (k, p) # submitted es"
| "submitted (e # es) = submitted es"

section \<open>Observations on worlds and traces\<close>

text \<open>The goroutines started, and the child processes run, in order.\<close>

fun spawned :: "event list \<Rightarrow> (string \<times> IssueScheme \<times> ReposConfig) list" where
  "spawned [] = []"
| "spawned (Go_runAgent d i c # es) = (d, i, c) # spawned es"
| "spawned (e # es) = spawned es"

fun execs :: "event list \<Rightarrow> (string \<times> string list) list" where
  "execs [] = []"
| "execs (Exec d argv # es) = (d, argv) # execs es"
| "execs (e # es) = execs es"

definition agent_execs :: "event list \<Rightarrow> (string \<times> string list) list" where
  "agent_execs tr = filter (\<lambda>(d, argv). take 1 argv = [''warp-cli-dev'']) (execs tr)"

text \<open>
  The drain as the tracker and the workspace store see it: a page request with its
  cursor, and a call of \<^verbatim>\<open>handleIssue\<close>, which logs exactly one of three messages with the
  issue's key.
\<close>

datatype drain_event = Req string | Hnd string

fun drain_view :: "event list \<Rightarrow> drain_event list" where
  "drain_view [] = []"
| "drain_view (SearchJQL jql n tok # es) = Req tok # drain_view es"
| "drain_view (Log l m fs # es) =
     (if m = ''issue was already handled'' \<or> m = ''failed to create workspace directory''
         \<or> m = ''processing issue''
        then (case map_of fs ''key'' of Some k \<Rightarrow> Hnd k # drain_view es | None \<Rightarrow> drain_view es)
      else drain_view es)"
| "drain_view (e # es) = drain_view es"

text \<open>
  The view of a drain that requests the given pages in succession, starting with the
  given cursor, and handles each page's issues before it requests the next page.
\<close>

fun expected_view :: "string \<Rightarrow> SearchPage list \<Rightarrow> drain_event list" where
  "expected_view tok [] = []"
| "expected_view tok (p # ps) =
     Req tok # map (\<lambda>i. Hnd (Key i)) (Issues p) @ expected_view (NextPageToken p) ps"

text \<open>
  The tracker serves the given pages in succession, each with a non-empty cursor,
  from request number \<open>n\<close> and cursor \<open>tok\<close> on; the result is the number and the
  cursor of the request that follows them.
\<close>

fun chain_end ::
  "search_client \<Rightarrow> string \<Rightarrow> nat \<Rightarrow> string \<Rightarrow> SearchPage list \<Rightarrow> (nat \<times> string) option" where
  "chain_end client jql n tok [] = Some (n, tok)"
| "chain_end client jql n tok (p # ps) =
     (if client n jql tok = Inr p \<and> NextPageToken p \<noteq> []
        then chain_end client jql (Suc n) (NextPageToken p) ps
      else None)"

text \<open>
  The history of a deployment, as far as the file system is concerned: calls of
  \<^verbatim>\<open>handleIssue\<close> by the poller and runs of \<^verbatim>\<open>runAgent\<close> by goroutines, in
  any order and with any environment each.
\<close>

datatype step =
    Attempt env ReposConfig IssueScheme
  | AgentRun env string IssueScheme ReposConfig

fun do_step :: "world \<Rightarrow> step \<Rightarrow> world" where
  "do_step w (Attempt ev c i) = snd (handleIssue ev c i w)"
| "do_step w (AgentRun ev d i c) = runAgent ev d i c w"

definition history :: "step list \<Rightarrow> world \<Rightarrow> world" where
  "history steps w = foldl do_step w steps"

text \<open>
  What a goroutine's work leaves in place: the working directory, every path that
  exists, and the list of goroutines started.
\<close>

definition extends :: "world \<Rightarrow> world \<Rightarrow> bool" where
  "extends w w' =
     (cwd w' = cwd w \<and> dirs w \<subseteq> dirs w' \<and> dom (files w) \<subseteq> dom (files w')
      \<and> spawned (trace w') = spawned (trace w))"

text \<open>The number of goroutines started for issues with the given key.\<close>

definition claims_of :: "string \<Rightarrow> world \<Rightarrow> nat" where
  "claims_of k w = length (filter (\<lambda>(d, i, c). Key i = k) (spawned (trace w)))"

text \<open>A deployment used in the examples: nothing fails, no repository is configured.\<close>

definition ex_env :: env where
  "ex_env =
     \<lparr>mkdir_fault = (\<lambda>p. None), create_fault = (\<lambda>p. None), read_fault = (\<lambda>p. None),
      getwd_fault = None,
      yaml_Unmarshal = (\<lambda>d. Inl ''yaml: unmarshal errors''),
      json_MarshalIndent = (\<lambda>i. Inr ''{}''),
      cmd_result = (\<lambda>d argv. (None, [])),
      new_client_fault = (\<lambda>h. None),
      setting = (\<lambda>k. if k = ''profile_id'' then [] else if k = ''label'' then ''warp-assign''
                      else ''x'')\<rparr>"

definition ex_world :: world where
  "ex_world = \<lparr>cwd = ''/srv'', dirs = {''/srv'', ''/srv/workspaces''}, files = Map.empty, trace = []\<rparr>"

definition no_repos :: ReposConfig where
  "no_repos = \<lparr>Repositories = []\<rparr>"

definition issue_A1 :: IssueScheme where
  "issue_A1 = \<lparr>Key = ''A-1'', Summary = ''first''\<rparr>"

definition issue_A2 :: IssueScheme where
  "issue_A2 = \<lparr>Key = ''A-2'', Summary = ''second''\<rparr>"

definition issue_A3 :: IssueScheme where
  "issue_A3 = \<lparr>Key = ''A-3'', Summary = ''third''\<rparr>"

definition ex_page1 :: SearchPage where
  "ex_page1 = \<lparr>Issues = [issue_A1, issue_A2], NextPageToken = ''p2''\<rparr>"

definition ex_page2 :: SearchPage where
  "ex_page2 = \<lparr>Issues = [issue_A3], NextPageToken = []\<rparr>"

text \<open>A tracker with two pages, and one whose second page cannot be fetched.\<close>

definition ex_client :: search_client where
  "ex_client n jql tok =
     (if tok = [] then Inr ex_page1
      else if tok = ''p2'' then Inr ex_page2
      else Inl (ClientError ''unknown cursor'', None))"

definition ex_client_down :: search_client where
  "ex_client_down n jql tok =
     (if tok = [] then Inr ex_page1
      else Inl (ClientError ''503 Service Unavailable'', Some (''503'', ''unavailable'')))"

text \<open>A deployment in which the workspace of A-1 cannot be created.\<close>

definition ex_env_denied :: env where
  "ex_env_denied =
     ex_env\<lparr>mkdir_fault := (\<lambda>p. if p = ''workspaces/A-1'' then Some ''permission denied'' else None)\<rparr>"

definition ex_jql :: string where
  "ex_jql = ''labels = warp-assign ORDER BY created DESC''"

text \<open>One configured repository; a deployment with its clone on disk.\<close>

definition ex_repo :: Repository where
  "ex_repo = \<lparr>URL = ''warpdotdev/warp-server'', Branch = ''main''\<rparr>"

definition one_repo :: ReposConfig where
  "one_repo = \<lparr>Repositories = [ex_repo]\<rparr>"

definition ex_world_clone :: world where
  "ex_world_clone =
     ex_world\<lparr>dirs := {''/srv'', ''/srv/workspaces'', ''/srv/repos'', ''/srv/repos/warp-server''}\<rparr>"

text \<open>
  A deployment whose \<^verbatim>\<open>repos.yaml\<close> is valid YAML with a repository URL that has
  no owner part.
\<close>

definition ex_yaml :: string where
  "ex_yaml = ''repositories: [{url: foo, branch: main}]''"

definition ex_env_yaml :: env where
  "ex_env_yaml =
     ex_env\<lparr>yaml_Unmarshal :=
       (\<lambda>d. if d = ex_yaml then Inr \<lparr>Repositories = [\<lparr>URL = ''foo'', Branch = ''main''\<rparr>]\<rparr>
            else Inl ''yaml: unmarshal errors'')\<rparr>"

definition ex_world_yaml :: world where
  "ex_world_yaml = ex_world\<lparr>files := [''/srv/repos.yaml'' \<mapsto> ex_yaml]\<rparr>"

text \<open>A \<^verbatim>\<open>repos.yaml\<close> that is not YAML: the flow sequence is never closed.\<close>

definition ex_bad_yaml :: string where
  "ex_bad_yaml = ''repositories: [{url: foo''"

definition ex_world_bad_yaml :: world where
  "ex_world_bad_yaml = ex_world\<lparr>files := [''/srv/repos.yaml'' \<mapsto> ex_bad_yaml]\<rparr>"

text \<open>Two configured repositories, of which only the first has its clone on disk.\<close>

definition ex_repo_b :: Repository where
  "ex_repo_b = \<lparr>URL = ''warpdotdev/warp-client'', Branch = ''main''\<rparr>"

definition two_repos :: ReposConfig where
  "two_repos = \<lparr>Repositories = [ex_repo, ex_repo_b]\<rparr>"

section \<open>Properties\<close>

subsection \<open>Reading traces\<close>

lemma submitted_append: "submitted (xs @ ys) = submitted xs @ submitted ys"
  by (induction xs rule: submitted.induct) simp_all

subsection \<open>What a goroutine's work leaves in place\<close>

lemma spawned_append: "spawned (xs @ ys) = spawned xs @ spawned ys"
  by (induction xs rule: spawned.induct) simp_all

lemma extends_refl: "extends w w" by (simp add: extends_def)
lemma extends_trans: "extends a b \<Longrightarrow> extends b c \<Longrightarrow> extends a c"
  by (auto simp: extends_def; blast)
lemma extends_logf: "extends w (logf l m fs w)"
  by (simp add: logf_def extends_def emit_def spawned_append)
lemma extends_Exec: "extends w (emit (Exec d argv) w)"
  by (simp add: extends_def emit_def spawned_append)
lemma extends_resolve: "extends w w' \<Longrightarrow> resolve w' p = resolve w p"
  by (simp add: extends_def resolve_def)
lemma extends_exists: "extends w w' \<Longrightarrow> path_exists w p \<Longrightarrow> path_exists w' p"
  by (auto simp: extends_def resolve_def path_exists_def)

lemma extends_os_Mkdir: "os_Mkdir ev p w = (r, w') \<Longrightarrow> extends w w'"
  by (auto simp: os_Mkdir_def extends_def split: option.splits if_splits)

lemma extends_os_Create: "os_Create ev p w = (r, w') \<Longrightarrow> extends w w'"
  by (auto simp: os_Create_def extends_def split: option.splits if_splits)

lemma extends_exec_Run: "exec_Run ev d argv w = (r, w') \<Longrightarrow> extends w w'"
  by (auto simp: exec_Run_def Let_def extends_Exec split: option.splits prod.splits if_splits)

lemma extends_git: "git_worktree_add ev d b wd base w = (r, w') \<Longrightarrow> extends w w'"
  unfolding git_worktree_add_def
  by (auto split: prod.splits option.splits dest!: extends_exec_Run simp: extends_def; blast)

lemma extends_createWorktree: "createWorktree ev wsd k repo lg w = (r, w') \<Longrightarrow> extends w w'"
  unfolding createWorktree_def Let_def
  by (auto simp: extends_refl split: sum.splits prod.splits option.splits if_splits
           dest!: extends_git
           intro: extends_trans[OF extends_logf] extends_trans[OF extends_trans[OF extends_logf] extends_logf])

lemma extends_forRepositories:
  "forRepositories ev wsd k lg repos w = (r, w') \<Longrightarrow> extends w w'"
proof (induction repos arbitrary: w)
  case Nil
  then show ?case by (simp add: extends_refl)
next
  case (Cons repo repos)
  obtain r1 w1 where c: "createWorktree ev wsd k repo lg w = (r1, w1)" by force
  then have e1: "extends w w1" by (rule extends_createWorktree)
  show ?case
  proof (cases r1)
    case None
    with Cons.prems c have "forRepositories ev wsd k lg repos w1 = (r, w')" by simp
    then have "extends w1 w'" by (rule Cons.IH)
    with e1 show ?thesis by (rule extends_trans)
  next
    case (Some e)
    with Cons.prems c have "w' = w1" by simp
    with e1 show ?thesis by simp
  qed
qed

lemma extends_setup:
  "setupRepositoryWorktrees ev wsd k cfg lg w = (r, w') \<Longrightarrow> extends w w'"
  unfolding setupRepositoryWorktrees_def
  by (auto split: if_splits simp: extends_logf dest: extends_forRepositories)

lemma extends_files_upd: "extends w (w\<lparr>files := (files w)(p \<mapsto> c)\<rparr>)"
  by (auto simp: extends_def)

lemma extends_runAgent: "extends w (runAgent ev wsd i cfg w)"
proof -
  let ?lp = "filepath_Join [wsd, ''output.log'']"
  let ?lg = "[(''key'', Key i), (''logPath'', ?lp)]"
  obtain r1 w1 where c: "os_Create ev ?lp w = (r1, w1)" by force
  then have e1: "extends w w1" by (rule extends_os_Create)
  obtain r2 w2 where s: "setupRepositoryWorktrees ev wsd (Key i) cfg ?lg w1 = (r2, w2)"
    by force
  then have e2: "extends w w2" using e1 extends_setup extends_trans by blast
  have tail: "extends w (case exec_Run ev wsd argv w4 of
        ((r, out), w5) \<Rightarrow>
          (let w6 = w5\<lparr>files := (files w5)(resolve w5 ?lp \<mapsto> out)\<rparr>
           in case r of Some e \<Rightarrow> logf Error ''warp agent command failed'' (?lg @ [(''error'', err_Error e)]) w6
              | None \<Rightarrow> logf Info ''warp agent completed'' ?lg w6))"
    if "extends w w4" for argv w4
  proof -
    obtain r out w5 where x: "exec_Run ev wsd argv w4 = ((r, out), w5)"
      by (metis prod.exhaust)
    then have e5: "extends w w5" using that extends_exec_Run extends_trans by blast
    have "extends w (logf l m fs (w5\<lparr>files := (files w5)(p \<mapsto> out)\<rparr>))" for l m fs p
      by (rule extends_trans[OF e5 extends_trans[OF extends_files_upd extends_logf]])
    then show ?thesis by (simp add: x Let_def split: option.splits)
  qed
  have l2: "extends w (logf l m fs w2)" for l m fs
    using e2 extends_logf extends_trans by blast
  have l3: "extends w (logf l m fs (logf l' m' fs' w2))" for l m fs l' m' fs'
    using l2 extends_logf extends_trans by blast
  show ?thesis
  proof (cases r1)
    case (Some e)
    with c show ?thesis
      by (simp add: runAgent_def Let_def extends_trans[OF e1 extends_logf])
  next
    case None
    show ?thesis
    proof (cases r2)
      case (Some e)
      with c None s show ?thesis by (simp add: runAgent_def Let_def l2)
    next
      case None2: None
      show ?thesis
      proof (cases "json_MarshalIndent ev i")
        case (Inl m)
        with c None s None2 show ?thesis by (simp add: runAgent_def Let_def l2)
      next
        case (Inr js)
        show ?thesis
        proof (cases "setting ev ''profile_id'' = []")
          case True
          with c None s None2 Inr tail[OF l2] show ?thesis
            by (simp add: runAgent_def Let_def)
        next
          case False
          with c None s None2 Inr tail[OF l3] show ?thesis
            by (simp add: runAgent_def Let_def)
        qed
      qed
    qed
  qed
qed


lemma handleIssue_cases:
  "handleIssue ev cfg i w =
     (let d = filepath_Join [workspacesDir, Key i]
      in if path_exists w d then (None, logf Debug ''issue was already handled'' [(''key'', Key i)] w)
         else (case mkdir_fault ev d of
                 Some m \<Rightarrow>
                   (Some (PathError ''mkdir'' d (EFAULT m)),
                    logf Error ''failed to create workspace directory''
                      [(''error'', err_Error (PathError ''mkdir'' d (EFAULT m))), (''key'', Key i),
                       (''directory'', d)] w)
               | None \<Rightarrow>
                   (None,
                    emit (Go_runAgent d i cfg)
                      (logf Info ''processing issue'' [(''key'', Key i)]
                         (w\<lparr>dirs := insert (resolve w d) (dirs w)\<rparr>)))))"
  by (simp add: handleIssue_def os_Mkdir_def Let_def split: option.splits)

lemma handleIssue_already:
  "path_exists w (filepath_Join [workspacesDir, Key i]) \<Longrightarrow>
   handleIssue ev cfg i w = (None, logf Debug ''issue was already handled'' [(''key'', Key i)] w)"
  by (simp add: handleIssue_cases)

lemma path_exists_trace [simp]: "path_exists (w\<lparr>trace := t\<rparr>) p = path_exists w p"
  by (simp add: path_exists_def resolve_def)

lemma handleIssue_exists:
  "path_exists w p \<Longrightarrow> path_exists (snd (handleIssue ev cfg i w)) p"
  by (auto simp: handleIssue_cases Let_def logf_def emit_def path_exists_def resolve_def
           split: option.splits)

lemma handleIssue_claims_of:
  "claims_of k (snd (handleIssue ev cfg i w)) =
     (if spawned (trace (snd (handleIssue ev cfg i w))) \<noteq> spawned (trace w) \<and> Key i = k
      then Suc (claims_of k w) else claims_of k w)"
  by (auto simp: handleIssue_cases Let_def logf_def emit_def claims_of_def spawned_append
           split: option.splits)

lemma handleIssue_claimed_exists:
  "spawned (trace (snd (handleIssue ev cfg i w))) \<noteq> spawned (trace w) \<Longrightarrow>
   \<not> path_exists w (filepath_Join [workspacesDir, Key i])
   \<and> path_exists (snd (handleIssue ev cfg i w)) (filepath_Join [workspacesDir, Key i])"
  by (auto simp: handleIssue_cases Let_def logf_def emit_def spawned_append path_exists_def
        resolve_def
           split: option.splits if_splits)

lemma do_step_exists: "path_exists w p \<Longrightarrow> path_exists (do_step w s) p"
  by (cases s) (auto simp: handleIssue_exists intro: extends_exists[OF extends_runAgent])

lemma history_exists: "path_exists w p \<Longrightarrow> path_exists (history steps w) p"
  unfolding history_def
  by (induction steps arbitrary: w) (simp_all add: do_step_exists)

lemma history_Cons: "history (s # steps) w = history steps (do_step w s)"
  by (simp add: history_def)

lemma runAgent_claims_of: "claims_of k (runAgent ev d i c w) = claims_of k w"
  using extends_runAgent[of w ev d i c] by (simp add: extends_def claims_of_def)

lemma claims_of_settled:
  "path_exists w (filepath_Join [workspacesDir, k]) \<Longrightarrow> claims_of k (history steps w) = claims_of k w"
proof (induction steps arbitrary: w)
  case Nil
  then show ?case by (simp add: history_def)
next
  case (Cons s steps)
  have ex: "path_exists (do_step w s) (filepath_Join [workspacesDir, k])"
    using Cons.prems by (rule do_step_exists)
  have same: "claims_of k (do_step w s) = claims_of k w"
  proof (cases s)
    case (Attempt ev c i)
    show ?thesis
    proof (cases "Key i = k")
      case True
      with Cons.prems Attempt show ?thesis
        by (simp add: handleIssue_already logf_def emit_def claims_of_def spawned_append)
    next
      case False
      with Attempt show ?thesis by (simp add: handleIssue_claims_of)
    qed
  next
    case (AgentRun ev d i c)
    then show ?thesis by (simp add: runAgent_claims_of)
  qed
  show ?case using Cons.IH[OF ex] same by (simp add: history_Cons)
qed

lemma claims_of_history: "claims_of k (history steps w) \<le> Suc (claims_of k w)"
proof (induction steps arbitrary: w)
  case Nil
  then show ?case by (simp add: history_def)
next
  case (Cons s steps)
  show ?case
  proof (cases "claims_of k (do_step w s) = claims_of k w")
    case True
    with Cons.IH[of "do_step w s"] show ?thesis by (simp add: history_Cons)
  next
    case False
    then obtain ev c i where s: "s = Attempt ev c i"
      by (cases s) (auto simp: runAgent_claims_of)
    from False s have k: "Key i = k"
      and sp: "spawned (trace (snd (handleIssue ev c i w))) \<noteq> spawned (trace w)"
      by (auto simp: handleIssue_claims_of split: if_splits)
    from handleIssue_claimed_exists[OF sp] k
    have "path_exists (do_step w s) (filepath_Join [workspacesDir, k])" by (simp add: s)
    then have "claims_of k (history steps (do_step w s)) = claims_of k (do_step w s)"
      by (rule claims_of_settled)
    moreover have "claims_of k (do_step w s) = Suc (claims_of k w)"
      using sp k by (simp add: s handleIssue_claims_of)
    ultimately show ?thesis by (simp add: history_Cons)
  qed
qed

subsection \<open>The workspace claim\<close>

text \<open>
  C1. A call of \<^verbatim>\<open>handleIssue\<close> that starts a goroutine (a claim) finds no path at
  the workspace directory of the issue's key; after it, whatever calls of
  \<^verbatim>\<open>handleIssue\<close> and runs of \<^verbatim>\<open>runAgent\<close> follow, every call for the same
  key returns no error and does nothing but log, at debug level, that the issue was
  already handled: no directory is made, no failure is logged, no goroutine is
  started. Over any history, at most one goroutine is started for a key.
\<close>

theorem C1_workspace_claimed_at_most_once:
  "(spawned (trace (snd (handleIssue ev cfg i w))) \<noteq> spawned (trace w) \<longrightarrow>
      \<not> path_exists w (filepath_Join [workspacesDir, Key i])
      \<and> (\<forall>steps ev' cfg' i'. Key i' = Key i \<longrightarrow>
            handleIssue ev' cfg' i' (history steps (snd (handleIssue ev cfg i w)))
              = (None, logf Debug ''issue was already handled'' [(''key'', Key i)]
                         (history steps (snd (handleIssue ev cfg i w))))))
   \<and> claims_of k (history steps0 w0) \<le> Suc (claims_of k w0)"
proof (intro conjI impI allI)
  assume sp: "spawned (trace (snd (handleIssue ev cfg i w))) \<noteq> spawned (trace w)"
  from handleIssue_claimed_exists[OF sp]
  show "\<not> path_exists w (filepath_Join [workspacesDir, Key i])" by simp
  fix steps ev' cfg' and i' :: IssueScheme
  assume k: "Key i' = Key i"
  from handleIssue_claimed_exists[OF sp]
  have "path_exists (history steps (snd (handleIssue ev cfg i w))) (filepath_Join [workspacesDir, Key i'])"
    by (simp add: k history_exists)
  then show "handleIssue ev' cfg' i' (history steps (snd (handleIssue ev cfg i w)))
              = (None, logf Debug ''issue was already handled'' [(''key'', Key i)]
                         (history steps (snd (handleIssue ev cfg i w))))"
    by (simp add: handleIssue_already k)
next
  show "claims_of k (history steps0 w0) \<le> Suc (claims_of k w0)"
    by (rule claims_of_history)
qed

text \<open>
  A-1 is claimed in a fresh deployment; after its agent has run and A-2 has been
  claimed, another attempt on A-1 only logs at debug level. Three attempts on A-1 in
  one history start one goroutine.
\<close>

theorem C1_witness:
  "spawned (trace (snd (handleIssue ex_env no_repos issue_A1 ex_world)))
     = [(''workspaces/A-1'', issue_A1, no_repos)]
   \<and> \<not> path_exists ex_world ''workspaces/A-1''
   \<and> handleIssue ex_env no_repos issue_A1
        (history [AgentRun ex_env ''workspaces/A-1'' issue_A1 no_repos, Attempt ex_env no_repos issue_A2]
           (snd (handleIssue ex_env no_repos issue_A1 ex_world)))
      = (None, logf Debug ''issue was already handled'' [(''key'', ''A-1'')]
           (history [AgentRun ex_env ''workspaces/A-1'' issue_A1 no_repos, Attempt ex_env no_repos issue_A2]
              (snd (handleIssue ex_env no_repos issue_A1 ex_world))))
   \<and> claims_of ''A-1''
        (history [Attempt ex_env no_repos issue_A1, AgentRun ex_env ''workspaces/A-1'' issue_A1 no_repos,
                  Attempt ex_env no_repos issue_A1, Attempt ex_env no_repos issue_A2,
                  Attempt ex_env no_repos issue_A1] ex_world) = 1"
proof -
  have sp: "spawned (trace (snd (handleIssue ex_env no_repos issue_A1 ex_world)))
     = [(''workspaces/A-1'', issue_A1, no_repos)]"
    by (simp add: handleIssue_cases Let_def ex_env_def ex_world_def no_repos_def issue_A1_def
          issue_A2_def filepath_Join_def filepath_Clean_def is_abs_def clean_step_def resolve_def
          path_exists_def is_dir_def workspacesDir_def logf_def emit_def)
  then have ne: "spawned (trace (snd (handleIssue ex_env no_repos issue_A1 ex_world)))
     \<noteq> spawned (trace ex_world)"
    by (simp add: ex_world_def)
  have k: "Key issue_A1 = ''A-1''" by (simp add: issue_A1_def)
  have one: "claims_of ''A-1''
        (history [Attempt ex_env no_repos issue_A1, AgentRun ex_env ''workspaces/A-1'' issue_A1 no_repos,
                  Attempt ex_env no_repos issue_A1, Attempt ex_env no_repos issue_A2,
                  Attempt ex_env no_repos issue_A1] ex_world) = 1"
    by (simp add: history_def handleIssue_cases Let_def ex_env_def ex_world_def no_repos_def
          issue_A1_def issue_A2_def filepath_Join_def filepath_Clean_def is_abs_def clean_step_def
          resolve_def path_exists_def is_dir_def workspacesDir_def logf_def emit_def
          claims_of_def runAgent_def os_Create_def setupRepositoryWorktrees_def exec_Run_def
          is_dir_def spawned_append)
  from C1_workspace_claimed_at_most_once
         [where ev = ex_env and cfg = no_repos and i = issue_A1 and w = ex_world
            and k = "''A-1''" and ?w0.0 = ex_world and ?steps0.0 = "[]"] ne
  have "\<not> path_exists ex_world (filepath_Join [workspacesDir, Key issue_A1])"
    and "\<And>steps. handleIssue ex_env no_repos issue_A1
            (history steps (snd (handleIssue ex_env no_repos issue_A1 ex_world)))
          = (None, logf Debug ''issue was already handled'' [(''key'', Key issue_A1)]
               (history steps (snd (handleIssue ex_env no_repos issue_A1 ex_world))))"
    by blast+
  then show ?thesis using sp one
    by (simp add: k filepath_Join_def filepath_Clean_def is_abs_def clean_step_def
          workspacesDir_def)
qed

subsection \<open>The drain\<close>

lemma drain_view_append: "drain_view (xs @ ys) = drain_view xs @ drain_view ys"
  by (induction xs rule: drain_view.induct) (simp_all split: option.splits)

lemma handleIssue_view:
  "drain_view (trace (snd (handleIssue ev cfg i w))) = drain_view (trace w) @ [Hnd (Key i)]"
  by (simp add: handleIssue_cases Let_def logf_def emit_def drain_view_append split: option.splits)

lemma handleIssue_ok: "\<forall>p. mkdir_fault ev p = None \<Longrightarrow> fst (handleIssue ev cfg i w) = None"
  by (simp add: handleIssue_cases Let_def)

lemma forIssues_ok_view:
  assumes "\<forall>p. mkdir_fault ev p = None"
  shows "fst (forIssues (handleIssue ev cfg) issues w) = None
         \<and> drain_view (trace (snd (forIssues (handleIssue ev cfg) issues w)))
             = drain_view (trace w) @ map (\<lambda>i. Hnd (Key i)) issues"
proof (induction issues arbitrary: w)
  case Nil
  then show ?case by simp
next
  case (Cons i issues)
  obtain w1 where h: "handleIssue ev cfg i w = (None, w1)"
    using handleIssue_ok[OF assms, of cfg i w] by (metis prod.collapse)
  have v: "drain_view (trace w1) = drain_view (trace w) @ [Hnd (Key i)]"
    using handleIssue_view[of ev cfg i w] h by simp
  show ?case using Cons.IH[of w1] h v by simp
qed

lemma loop_chain:
  assumes "\<forall>p. mkdir_fault ev p = None"
  shows "chain_end client jql n tok ps = Some (n', tok') \<Longrightarrow>
         \<exists>w1. searchIssues_loop client jql (handleIssue ev cfg) n tok w
                 = searchIssues_loop client jql (handleIssue ev cfg) n' tok' w1
              \<and> drain_view (trace w1) = drain_view (trace w) @ expected_view tok ps"
proof (induction ps arbitrary: n tok w)
  case Nil
  then show ?case by auto
next
  case (Cons p ps)
  from Cons.prems have c: "client n jql tok = Inr p" and t: "NextPageToken p \<noteq> []"
    and rest: "chain_end client jql (Suc n) (NextPageToken p) ps = Some (n', tok')"
    by (auto split: if_splits)
  let ?w0 = "emit (SearchJQL jql pageSize tok) w"
  obtain w2 where f: "forIssues (handleIssue ev cfg) (Issues p) ?w0 = (None, w2)"
    using forIssues_ok_view[OF assms, of cfg "Issues p" ?w0] by (metis prod.collapse)
  have v2: "drain_view (trace w2) = drain_view (trace w) @ Req tok # map (\<lambda>i. Hnd (Key i)) (Issues p)"
    using forIssues_ok_view[OF assms, of cfg "Issues p" ?w0] f
    by (simp add: emit_def drain_view_append)
  have step: "searchIssues_loop client jql (handleIssue ev cfg) n tok w
              = searchIssues_loop client jql (handleIssue ev cfg) (Suc n) (NextPageToken p) w2"
    by (subst searchIssues_loop.simps) (simp add: c t f)
  from Cons.IH[OF rest, of w2] obtain w1 where
    "searchIssues_loop client jql (handleIssue ev cfg) (Suc n) (NextPageToken p) w2
       = searchIssues_loop client jql (handleIssue ev cfg) n' tok' w1"
    "drain_view (trace w1) = drain_view (trace w2) @ expected_view (NextPageToken p) ps"
    by blast
  with step v2 show ?case by auto
qed

lemma loop_fetch_fails:
  "client n jql tok = Inl (e, resp) \<Longrightarrow>
   \<exists>w'. searchIssues_loop client jql cb n tok w = Some (Some e, w')
       \<and> dirs w' = dirs w \<and> files w' = files w \<and> spawned (trace w') = spawned (trace w)
       \<and> drain_view (trace w') = drain_view (trace w) @ [Req tok]"
  by (subst searchIssues_loop.simps)
     (simp add: logf_def emit_def spawned_append drain_view_append split: option.splits)





lemma forIssues_append:
  "forIssues cb (pre @ post) w =
     (case forIssues cb pre w of (Some e, w1) \<Rightarrow> (Some e, w1) | (None, w1) \<Rightarrow> forIssues cb post w1)"
  by (induction pre arbitrary: w) (auto split: prod.splits option.splits)

text \<open>
  C2, as the code has it. When the handler fails for an issue of a page, after the
  issues before it on that page were handled without error, the drain returns that
  error at once, and the world it leaves is the one the failing call left: no later
  issue of the page is handled and no further page is requested. The poller logs the
  error it gets from the drain and goes on with the next tick.
\<close>

theorem C2_handler_failure_ends_the_drain:
  "(client n jql tok = Inr page \<and> Issues page = pre @ issue # post
      \<and> forIssues cb pre (emit (SearchJQL jql pageSize tok) w) = (None, w1)
      \<and> cb issue w1 = (Some e, w2)
     \<longrightarrow> searchIssues_loop client jql cb n tok w = Some (Some e, w2))
   \<and> (searchIssues client label (handleIssue ev cfg) w0 = Some (Some e, w3)
     \<longrightarrow> ticker_loop ev (client # clients) label cfg w0
          = ticker_loop ev clients label cfg
              (logf Error ''failed to search issues'' [(''error'', err_Error e)] w3))"
proof (intro conjI impI)
  assume a: "client n jql tok = Inr page \<and> Issues page = pre @ issue # post
      \<and> forIssues cb pre (emit (SearchJQL jql pageSize tok) w) = (None, w1)
      \<and> cb issue w1 = (Some e, w2)"
  then have "forIssues cb (Issues page) (emit (SearchJQL jql pageSize tok) w) = (Some e, w2)"
    by (simp add: forIssues_append)
  with a show "searchIssues_loop client jql cb n tok w = Some (Some e, w2)"
    by (subst searchIssues_loop.simps) simp
next
  assume "searchIssues client label (handleIssue ev cfg) w0 = Some (Some e, w3)"
  then show "ticker_loop ev (client # clients) label cfg w0
          = ticker_loop ev clients label cfg
              (logf Error ''failed to search issues'' [(''error'', err_Error e)] w3)"
    by simp
qed


text \<open>
  The first issue of the first page cannot be claimed: the drain ends there.
\<close>

theorem C2_witness:
  "searchIssues_loop ex_client ex_jql (handleIssue ex_env_denied no_repos) 0 [] ex_world
     = Some (Some (PathError ''mkdir'' ''workspaces/A-1'' (EFAULT ''permission denied'')),
             snd (handleIssue ex_env_denied no_repos issue_A1
                    (emit (SearchJQL ex_jql pageSize []) ex_world)))
   \<and> ticker_loop ex_env_denied [ex_client] ''warp-assign'' no_repos ex_world
     = ticker_loop ex_env_denied [] ''warp-assign'' no_repos
         (logf Error ''failed to search issues''
            [(''error'', ''mkdir workspaces/A-1: permission denied'')]
            (snd (handleIssue ex_env_denied no_repos issue_A1
                    (emit (SearchJQL ex_jql pageSize [])
                       (logf Info ''Searching for Jira issues'' [(''label'', ''warp-assign'')] ex_world)))))"
proof -
  let ?e = "PathError ''mkdir'' ''workspaces/A-1'' (EFAULT ''permission denied'')"
  let ?w1 = "emit (SearchJQL ex_jql pageSize []) ex_world"
  let ?w2 = "snd (handleIssue ex_env_denied no_repos issue_A1 ?w1)"
  let ?w3 = "snd (handleIssue ex_env_denied no_repos issue_A1
                    (emit (SearchJQL ex_jql pageSize [])
                       (logf Info ''Searching for Jira issues'' [(''label'', ''warp-assign'')] ex_world)))"
  have h1: "ex_client 0 ex_jql [] = Inr ex_page1 \<and> Issues ex_page1 = [] @ issue_A1 # [issue_A2]
      \<and> forIssues (handleIssue ex_env_denied no_repos) [] ?w1 = (None, ?w1)
      \<and> handleIssue ex_env_denied no_repos issue_A1 ?w1 = (Some ?e, ?w2)"
    by (simp add: ex_env_def ex_env_denied_def ex_world_def no_repos_def issue_A1_def
          issue_A2_def issue_A3_def ex_page1_def ex_page2_def ex_client_def ex_jql_def
          handleIssue_cases Let_def filepath_Join_def filepath_Clean_def is_abs_def clean_step_def
          resolve_def path_exists_def is_dir_def workspacesDir_def logf_def emit_def)
  have h2: "searchIssues ex_client ''warp-assign'' (handleIssue ex_env_denied no_repos) ex_world
      = Some (Some ?e, ?w3)"
    by (simp add: searchIssues_def searchIssues_loop.simps Let_def ex_env_def ex_env_denied_def
          ex_world_def no_repos_def issue_A1_def issue_A2_def issue_A3_def ex_page1_def ex_page2_def
          ex_client_def ex_jql_def handleIssue_cases
          filepath_Join_def filepath_Clean_def is_abs_def clean_step_def resolve_def path_exists_def is_dir_def workspacesDir_def logf_def emit_def pageSize_def)
  from C2_handler_failure_ends_the_drain
         [where client = ex_client and n = 0 and jql = ex_jql and tok = "[]" and page = ex_page1
            and pre = "[]" and issue = issue_A1 and post = "[issue_A2]"
            and cb = "handleIssue ex_env_denied no_repos" and w = ex_world and ?w1.0 = ?w1
            and e = ?e and ?w2.0 = ?w2 and label = "''warp-assign''" and ev = ex_env_denied
            and cfg = no_repos and ?w0.0 = ex_world and ?w3.0 = ?w3 and clients = "[]"]
       h1 h2
  show ?thesis by simp
qed

text \<open>
  Against C2 as stated: with two issues on the first page and a second page to come,
  a handler failure on A-1 leaves A-2 and A-3 unhandled and the second page unrequested.
\<close>

theorem C2_counterexample:
  "map_option (drain_view \<circ> trace \<circ> snd)
     (searchIssues ex_client ''warp-assign'' (handleIssue ex_env_denied no_repos) ex_world)
     = Some [Req [], Hnd ''A-1'']
   \<and> map_option fst
     (searchIssues ex_client ''warp-assign'' (handleIssue ex_env_denied no_repos) ex_world)
     = Some (Some (PathError ''mkdir'' ''workspaces/A-1'' (EFAULT ''permission denied'')))"
  by (simp add: searchIssues_def searchIssues_loop.simps Let_def ex_env_def ex_env_denied_def
        ex_world_def no_repos_def issue_A1_def issue_A2_def issue_A3_def ex_page1_def ex_page2_def
        ex_client_def ex_jql_def handleIssue_cases
        filepath_Join_def filepath_Clean_def is_abs_def clean_step_def resolve_def path_exists_def is_dir_def workspacesDir_def logf_def emit_def pageSize_def)



text \<open>
  C7. When the tracker serves some pages and then fails a fetch, the tick's drain
  returns the fetch error, and what it did is exactly the requests and handler calls of
  the pages served, each once and in order, followed by the failed request: nothing is
  handled after it. A failing fetch, at any point of a drain, leaves the directories
  and files as they were and starts no goroutine.
\<close>

theorem C7_fetch_failure_ends_the_drain:
  "((\<forall>p. mkdir_fault ev p = None)
      \<and> chain_end client (''labels = '' @ label @ '' ORDER BY created DESC'') 0 [] ps = Some (n', tok')
      \<and> client n' (''labels = '' @ label @ '' ORDER BY created DESC'') tok' = Inl (e, resp)
     \<longrightarrow> (\<exists>w'. searchIssues client label (handleIssue ev cfg) w = Some (Some e, w')
            \<and> drain_view (trace w') = drain_view (trace w) @ expected_view [] ps @ [Req tok']))
   \<and> (client n jql tok = Inl (e, resp)
     \<longrightarrow> (\<exists>w'. searchIssues_loop client jql cb n tok w0 = Some (Some e, w')
            \<and> dirs w' = dirs w0 \<and> files w' = files w0
            \<and> spawned (trace w') = spawned (trace w0)))"
proof (intro conjI impI)
  let ?jql = "''labels = '' @ label @ '' ORDER BY created DESC''"
  let ?w0 = "logf Info ''Searching for Jira issues'' [(''label'', label)] w"
  assume a: "(\<forall>p. mkdir_fault ev p = None)
      \<and> chain_end client ?jql 0 [] ps = Some (n', tok')
      \<and> client n' ?jql tok' = Inl (e, resp)"
  then have nf: "\<forall>p. mkdir_fault ev p = None" by simp
  from a loop_chain[OF nf, of client ?jql 0 "[]" ps n' tok' cfg ?w0] obtain w1 where
    s1: "searchIssues_loop client ?jql (handleIssue ev cfg) 0 [] ?w0
           = searchIssues_loop client ?jql (handleIssue ev cfg) n' tok' w1"
    and v1: "drain_view (trace w1) = drain_view (trace ?w0) @ expected_view [] ps"
    by blast
  from a loop_fetch_fails[of client n' ?jql tok' e resp "handleIssue ev cfg" w1] obtain w' where
    s2: "searchIssues_loop client ?jql (handleIssue ev cfg) n' tok' w1 = Some (Some e, w')"
    and v2: "drain_view (trace w') = drain_view (trace w1) @ [Req tok']"
    by blast
  have "searchIssues client label (handleIssue ev cfg) w = Some (Some e, w')"
    using s1 s2 by (simp add: searchIssues_def Let_def)
  moreover have "drain_view (trace w') = drain_view (trace w) @ expected_view [] ps @ [Req tok']"
    using v1 v2 by (simp add: logf_def emit_def drain_view_append)
  ultimately show "\<exists>w'. searchIssues client label (handleIssue ev cfg) w = Some (Some e, w')
            \<and> drain_view (trace w') = drain_view (trace w) @ expected_view [] ps @ [Req tok']"
    by blast
next
  assume "client n jql tok = Inl (e, resp)"
  with loop_fetch_fails[of client n jql tok e resp cb w0]
  show "\<exists>w'. searchIssues_loop client jql cb n tok w0 = Some (Some e, w')
            \<and> dirs w' = dirs w0 \<and> files w' = files w0
            \<and> spawned (trace w') = spawned (trace w0)"
    by blast
qed

text \<open>The second page cannot be fetched: A-1 and A-2 are handled once, and that is all.\<close>

theorem C7_witness:
  "chain_end ex_client_down ex_jql 0 [] [ex_page1] = Some (1, ''p2'')
   \<and> ex_client_down 1 ex_jql ''p2''
       = Inl (ClientError ''503 Service Unavailable'', Some (''503'', ''unavailable''))
   \<and> map_option (drain_view \<circ> trace \<circ> snd)
       (searchIssues ex_client_down ''warp-assign'' (handleIssue ex_env no_repos) ex_world)
     = Some [Req [], Hnd ''A-1'', Hnd ''A-2'', Req ''p2'']
   \<and> map_option (dirs \<circ> snd)
       (searchIssues_loop ex_client_down ex_jql (handleIssue ex_env no_repos) 1 ''p2'' ex_world)
     = Some (dirs ex_world)"
proof -
  let ?e = "ClientError ''503 Service Unavailable''"
  let ?r = "Some (''503'', ''unavailable'')"
  have j: "''labels = '' @ ''warp-assign'' @ '' ORDER BY created DESC'' = ex_jql"
    by (simp add: ex_jql_def)
  have h: "(\<forall>p. mkdir_fault ex_env p = None)
      \<and> chain_end ex_client_down ex_jql 0 [] [ex_page1] = Some (1, ''p2'')
      \<and> ex_client_down 1 ex_jql ''p2'' = Inl (?e, ?r)"
    by (simp add: ex_env_def ex_world_def no_repos_def issue_A1_def issue_A2_def ex_page1_def
          ex_client_down_def ex_jql_def)
  from C7_fetch_failure_ends_the_drain
         [where ev = ex_env and client = ex_client_down and label = "''warp-assign''"
            and ps = "[ex_page1]" and n' = 1 and tok' = "''p2''" and e = ?e and resp = ?r
            and cfg = no_repos and w = ex_world and n = 1 and jql = ex_jql and tok = "''p2''"
            and cb = "handleIssue ex_env no_repos" and ?w0.0 = ex_world, unfolded j] h
  obtain w' w'' where
    "searchIssues ex_client_down ''warp-assign'' (handleIssue ex_env no_repos) ex_world = Some (Some ?e, w')"
    "drain_view (trace w') = drain_view (trace ex_world) @ expected_view [] [ex_page1] @ [Req ''p2'']"
    "searchIssues_loop ex_client_down ex_jql (handleIssue ex_env no_repos) 1 ''p2'' ex_world = Some (Some ?e, w'')"
    "dirs w'' = dirs ex_world"
    by blast
  then show ?thesis using h
    by (simp add: ex_page1_def ex_world_def issue_A1_def issue_A2_def)
qed

subsection \<open>Worktrees and dispatch\<close>

lemma execs_append: "execs (xs @ ys) = execs xs @ execs ys"
  by (induction xs rule: execs.induct) simp_all

lemma agent_execs_append: "agent_execs (xs @ ys) = agent_execs xs @ agent_execs ys"
  by (simp add: agent_execs_def execs_append)

lemma filepath_Abs_resolve: "filepath_Abs ev w p = Inr a \<Longrightarrow> a = resolve w p"
  by (auto simp: filepath_Abs_def resolve_def split: if_splits option.splits)

lemma exec_Run_effect:
  "exec_Run ev d argv w = ((r, out), w') \<Longrightarrow>
     w' = emit (Exec d argv) w \<and> (r = None \<longrightarrow> is_dir w d)"
  by (auto simp: exec_Run_def Let_def split: if_splits prod.splits option.splits)

lemma git_worktree_add_effect:
  "git_worktree_add ev d b wd base w = ((r, out), w') \<Longrightarrow>
     cwd w' = cwd w \<and> files w' = files w
     \<and> trace w' = trace w @ [Exec d [''git'', ''worktree'', ''add'', ''-b'', b, wd, base]]
     \<and> (case r of None \<Rightarrow> dirs w' = insert wd (dirs w) \<and> is_dir w d
                 | Some e \<Rightarrow> dirs w' = dirs w)"
  unfolding git_worktree_add_def
  by (auto simp: emit_def split: prod.splits option.splits dest!: exec_Run_effect)

lemma is_dir_trace [simp]: "is_dir (w\<lparr>trace := t\<rparr>) p = is_dir w p"
  by (simp add: is_dir_def resolve_def)

lemma is_dir_logf [simp]: "is_dir (logf l m fs w) p = is_dir w p"
  by (simp add: logf_def emit_def)

lemma createWorktree_effect:
  assumes "createWorktree ev wsd k repo lg w = (r, w')"
  shows "cwd w' = cwd w \<and> files w' = files w \<and> dirs w \<subseteq> dirs w'
     \<and> (\<exists>new. trace w' = trace w @ new \<and> agent_execs new = []
          \<and> (r = None \<longrightarrow>
               (\<exists>owner name. strings_SplitN2 (URL repo) = [owner, name]
                  \<and> execs new = [(resolve w (filepath_Join [''repos'', name]),
                           [''git'', ''worktree'', ''add'', ''-b'', ''warp/'' @ k @ ''-resolve'',
                            resolve w (filepath_Join [wsd, name]), Branch repo])]
                  \<and> resolve w (filepath_Join [wsd, name]) \<in> dirs w'
                  \<and> is_dir w (resolve w (filepath_Join [''repos'', name])))))"
proof (cases "length (strings_SplitN2 (URL repo)) = 2")
  case False
  with assms show ?thesis by (auto simp: createWorktree_def Let_def agent_execs_def)
next
  case True
  then obtain owner name where sp: "strings_SplitN2 (URL repo) = [owner, name]"
    by (cases "strings_SplitN2 (URL repo)") (auto simp: length_Suc_conv)
  let ?rd = "filepath_Join [''repos'', name]"
  let ?wd = "filepath_Join [wsd, name]"
  show ?thesis
  proof (cases "filepath_Abs ev w ?rd")
    case (Inl e)
    with assms sp show ?thesis by (auto simp: createWorktree_def Let_def agent_execs_def)
  next
    case rd: (Inr ard)
    show ?thesis
    proof (cases "filepath_Abs ev w ?wd")
      case (Inl e)
      with assms sp rd show ?thesis by (auto simp: createWorktree_def Let_def agent_execs_def)
    next
      case wd: (Inr awd)
      let ?b = "''warp/'' @ k @ ''-resolve''"
      let ?w1 = "logf Info ''creating git worktree''
                   (lg @ [(''repo'', name), (''branch'', ?b), (''worktreeDir'', awd)]) w"
      obtain r2 out w2 where g: "git_worktree_add ev ard ?b awd (Branch repo) ?w1 = ((r2, out), w2)"
        by (metis prod.exhaust)
      note ge = git_worktree_add_effect[OF g]
      have a1: "ard = resolve w ?rd" and a2: "awd = resolve w ?wd"
        using rd wd by (auto dest: filepath_Abs_resolve)
      show ?thesis
      proof (cases r2)
        case None
        with assms sp rd wd g have "r = None"
          and "w' = logf Info ''git worktree created successfully''
                      (lg @ [(''repo'', name), (''worktreeDir'', awd)]) w2"
          by (auto simp: createWorktree_def Let_def)
        with ge None a1 a2 sp show ?thesis
          by (auto simp: logf_def emit_def execs_append agent_execs_def)
      next
        case (Some e)
        with assms sp rd wd g have "r \<noteq> None" and "w' = w2"
          by (auto simp: createWorktree_def Let_def)
        with ge Some show ?thesis
          by (auto simp: logf_def emit_def execs_append agent_execs_def)
      qed
    qed
  qed
qed

lemma createWorktree_missing_clone:
  assumes "strings_SplitN2 (URL repo) = [owner, name]"
    and "filepath_Abs ev w (filepath_Join [''repos'', name]) = Inr rd" and "\<not> is_dir w rd"
  shows "fst (createWorktree ev wsd k repo lg w) \<noteq> None"
proof
  assume n: "fst (createWorktree ev wsd k repo lg w) = None"
  obtain w' where "createWorktree ev wsd k repo lg w = (None, w')"
    using n by (metis prod.collapse)
  from createWorktree_effect[OF this] assms(1)
  have "is_dir w (resolve w (filepath_Join [''repos'', name]))" by auto
  with assms(2,3) filepath_Abs_resolve show False by blast
qed


lemma resolve_cwd: "cwd w' = cwd w \<Longrightarrow> resolve w' p = resolve w p"
  by (simp add: resolve_def)

lemma forRepositories_effect:
  "forRepositories ev wsd k lg repos w = (r, w') \<Longrightarrow>
     cwd w' = cwd w \<and> files w' = files w \<and> dirs w \<subseteq> dirs w'
     \<and> (\<exists>new. trace w' = trace w @ new \<and> agent_execs new = []
          \<and> (r = None \<longrightarrow>
               list_all2 (\<lambda>repo x. \<exists>rd wd. x = (rd, [''git'', ''worktree'', ''add'', ''-b'',
                                         ''warp/'' @ k @ ''-resolve'', wd, Branch repo]))
                 repos (execs new)))"
proof (induction repos arbitrary: w)
  case Nil
  then show ?case by (simp add: agent_execs_def)
next
  case (Cons repo repos)
  obtain r1 w1 where c: "createWorktree ev wsd k repo lg w = (r1, w1)" by force
  from createWorktree_effect[OF c] obtain new1 where
    f1: "cwd w1 = cwd w" "files w1 = files w" "dirs w \<subseteq> dirs w1"
    and t1: "trace w1 = trace w @ new1" "agent_execs new1 = []"
    and s1: "r1 = None \<longrightarrow> (\<exists>rd wd. execs new1 = [(rd, [''git'', ''worktree'', ''add'', ''-b'',
                                         ''warp/'' @ k @ ''-resolve'', wd, Branch repo])])"
    by blast
  show ?case
  proof (cases r1)
    case (Some e)
    with Cons.prems c have "w' = w1" "r \<noteq> None" by auto
    with f1 t1 show ?thesis by auto
  next
    case None
    with Cons.prems c have "forRepositories ev wsd k lg repos w1 = (r, w')" by simp
    from Cons.IH[OF this] obtain new2 where
      f2: "cwd w' = cwd w1" "files w' = files w1" "dirs w1 \<subseteq> dirs w'"
      and t2: "trace w' = trace w1 @ new2" "agent_execs new2 = []"
      and s2: "r = None \<longrightarrow>
               list_all2 (\<lambda>repo x. \<exists>rd wd. x = (rd, [''git'', ''worktree'', ''add'', ''-b'',
                                         ''warp/'' @ k @ ''-resolve'', wd, Branch repo]))
                 repos (execs new2)"
      by blast
    have A: "trace w' = trace w @ (new1 @ new2)" using t1 t2 by simp
    have B: "agent_execs (new1 @ new2) = []" using t1 t2 by (simp add: agent_execs_append)
    have C: "r = None \<longrightarrow>
               list_all2 (\<lambda>repo x. \<exists>rd wd. x = (rd, [''git'', ''worktree'', ''add'', ''-b'',
                                         ''warp/'' @ k @ ''-resolve'', wd, Branch repo]))
                 (repo # repos) (execs (new1 @ new2))"
      using s1 s2 None by (auto simp: execs_append)
    have "\<exists>new. trace w' = trace w @ new \<and> agent_execs new = []
          \<and> (r = None \<longrightarrow>
               list_all2 (\<lambda>repo x. \<exists>rd wd. x = (rd, [''git'', ''worktree'', ''add'', ''-b'',
                                         ''warp/'' @ k @ ''-resolve'', wd, Branch repo]))
                 (repo # repos) (execs new))"
      by (rule exI[of _ "new1 @ new2"]) (intro conjI; (rule A B C))
    moreover have "cwd w' = cwd w" "files w' = files w" "dirs w \<subseteq> dirs w'"
      using f1 f2 by auto
    ultimately show ?thesis by simp
  qed
qed

lemma setup_effect:
  "setupRepositoryWorktrees ev wsd k cfg lg w = (r, w') \<Longrightarrow>
     cwd w' = cwd w \<and> files w' = files w \<and> dirs w \<subseteq> dirs w'
     \<and> (\<exists>new. trace w' = trace w @ new \<and> agent_execs new = []
          \<and> (r = None \<longrightarrow>
               list_all2 (\<lambda>repo x. \<exists>rd wd. x = (rd, [''git'', ''worktree'', ''add'', ''-b'',
                                         ''warp/'' @ k @ ''-resolve'', wd, Branch repo]))
                 (Repositories cfg) (execs new)))"
proof (cases "Repositories cfg")
  case Nil
  assume "setupRepositoryWorktrees ev wsd k cfg lg w = (r, w')"
  with Nil show ?thesis
    by (auto simp: setupRepositoryWorktrees_def logf_def emit_def agent_execs_def)
next
  case (Cons a list)
  assume "setupRepositoryWorktrees ev wsd k cfg lg w = (r, w')"
  with Cons have "forRepositories ev wsd k lg (Repositories cfg) w = (r, w')"
    by (simp add: setupRepositoryWorktrees_def)
  then show ?thesis by (rule forRepositories_effect)
qed

text \<open>
  C3, as the code has it. Whenever \<^verbatim>\<open>createWorktree\<close> succeeds for a repository and
  an issue key \<open>k\<close>, the repository's URL splits into an owner and a name, and the one
  command run is \<^verbatim>\<open>git worktree add -b warp/<k>-resolve <dir> <branch>\<close>, inside the
  clone \<^verbatim>\<open>repos/<name>\<close>, for the directory \<^verbatim>\<open><workspace>/<name>\<close> and the
  repository's configured branch; the worktree directory exists afterwards. When the
  whole provisioning succeeds it has run exactly one such command per configured
  repository, in configuration order.
\<close>

theorem C3_worktree_branch_name:
  "(fst (createWorktree ev wsd k repo lg w) = None \<longrightarrow>
      (\<exists>owner name. strings_SplitN2 (URL repo) = [owner, name]
         \<and> execs (trace (snd (createWorktree ev wsd k repo lg w)))
             = execs (trace w) @
               [(resolve w (filepath_Join [''repos'', name]),
                 [''git'', ''worktree'', ''add'', ''-b'', ''warp/'' @ k @ ''-resolve'',
                  resolve w (filepath_Join [wsd, name]), Branch repo])]
         \<and> resolve w (filepath_Join [wsd, name]) \<in> dirs (snd (createWorktree ev wsd k repo lg w))))
   \<and> (fst (setupRepositoryWorktrees ev wsd k cfg lg w) = None \<longrightarrow>
      list_all2 (\<lambda>repo x. \<exists>rd wd. x = (rd, [''git'', ''worktree'', ''add'', ''-b'',
                                ''warp/'' @ k @ ''-resolve'', wd, Branch repo]))
        (Repositories cfg)
        (drop (length (execs (trace w)))
           (execs (trace (snd (setupRepositoryWorktrees ev wsd k cfg lg w))))))"
proof (intro conjI impI)
  assume "fst (createWorktree ev wsd k repo lg w) = None"
  then obtain w' where c: "createWorktree ev wsd k repo lg w = (None, w')"
    by (metis prod.collapse)
  from createWorktree_effect[OF c] c
  show "\<exists>owner name. strings_SplitN2 (URL repo) = [owner, name]
         \<and> execs (trace (snd (createWorktree ev wsd k repo lg w)))
             = execs (trace w) @
               [(resolve w (filepath_Join [''repos'', name]),
                 [''git'', ''worktree'', ''add'', ''-b'', ''warp/'' @ k @ ''-resolve'',
                  resolve w (filepath_Join [wsd, name]), Branch repo])]
         \<and> resolve w (filepath_Join [wsd, name]) \<in> dirs (snd (createWorktree ev wsd k repo lg w))"
    by (auto simp: execs_append)
next
  assume "fst (setupRepositoryWorktrees ev wsd k cfg lg w) = None"
  then obtain w' where c: "setupRepositoryWorktrees ev wsd k cfg lg w = (None, w')"
    by (metis prod.collapse)
  from setup_effect[OF c] c
  show "list_all2 (\<lambda>repo x. \<exists>rd wd. x = (rd, [''git'', ''worktree'', ''add'', ''-b'',
                                ''warp/'' @ k @ ''-resolve'', wd, Branch repo]))
        (Repositories cfg)
        (drop (length (execs (trace w)))
           (execs (trace (snd (setupRepositoryWorktrees ev wsd k cfg lg w)))))"
    by (auto simp: execs_append)
qed


text \<open>One repository with its clone on disk, issue A-1.\<close>

theorem C3_witness:
  "fst (createWorktree ex_env ''workspaces/A-1'' ''A-1'' ex_repo [] ex_world_clone) = None
   \<and> fst (setupRepositoryWorktrees ex_env ''workspaces/A-1'' ''A-1'' one_repo [] ex_world_clone) = None
   \<and> (\<exists>owner name. strings_SplitN2 (URL ex_repo) = [owner, name]
         \<and> execs (trace (snd (createWorktree ex_env ''workspaces/A-1'' ''A-1'' ex_repo [] ex_world_clone)))
             = execs (trace ex_world_clone) @
               [(resolve ex_world_clone (filepath_Join [''repos'', name]),
                 [''git'', ''worktree'', ''add'', ''-b'', ''warp/'' @ ''A-1'' @ ''-resolve'',
                  resolve ex_world_clone (filepath_Join [''workspaces/A-1'', name]), Branch ex_repo])]
         \<and> resolve ex_world_clone (filepath_Join [''workspaces/A-1'', name])
             \<in> dirs (snd (createWorktree ex_env ''workspaces/A-1'' ''A-1'' ex_repo [] ex_world_clone)))
   \<and> list_all2 (\<lambda>repo x. \<exists>rd wd. x = (rd, [''git'', ''worktree'', ''add'', ''-b'',
                                ''warp/'' @ ''A-1'' @ ''-resolve'', wd, Branch repo]))
        (Repositories one_repo)
        (drop (length (execs (trace ex_world_clone)))
           (execs (trace (snd (setupRepositoryWorktrees ex_env ''workspaces/A-1'' ''A-1'' one_repo []
                                 ex_world_clone)))))"
proof -
  have h1: "fst (createWorktree ex_env ''workspaces/A-1'' ''A-1'' ex_repo [] ex_world_clone) = None"
    by (simp add: createWorktree_def Let_def ex_env_def ex_world_def ex_world_clone_def
          ex_repo_def one_repo_def filepath_Join_def filepath_Clean_def is_abs_def clean_step_def
          resolve_def path_exists_def is_dir_def workspacesDir_def strings_SplitN2_def
          filepath_Abs_def
          git_worktree_add_def exec_Run_def logf_def emit_def)
  have h2: "fst (setupRepositoryWorktrees ex_env ''workspaces/A-1'' ''A-1'' one_repo [] ex_world_clone) = None"
    by (simp add: setupRepositoryWorktrees_def createWorktree_def Let_def ex_env_def
          ex_world_def ex_world_clone_def ex_repo_def one_repo_def filepath_Join_def
          filepath_Clean_def is_abs_def clean_step_def resolve_def path_exists_def is_dir_def
          workspacesDir_def
          strings_SplitN2_def filepath_Abs_def git_worktree_add_def exec_Run_def logf_def emit_def)
  from C3_worktree_branch_name
         [where ev = ex_env and wsd = "''workspaces/A-1''" and k = "''A-1''" and repo = ex_repo
            and lg = "[]" and w = ex_world_clone and cfg = one_repo] h1 h2
  show ?thesis by blast
qed

text \<open>
  Against C3 as stated: for issue A-1 the branch is \<^verbatim>\<open>warp/A-1-resolve\<close>, not
  \<^verbatim>\<open>agent/A-1-resolve\<close>.
\<close>

theorem C3_counterexample:
  "execs (trace (snd (createWorktree ex_env ''workspaces/A-1'' ''A-1'' ex_repo [] ex_world_clone)))
     = [(''/srv/repos/warp-server'',
         [''git'', ''worktree'', ''add'', ''-b'', ''warp/A-1-resolve'',
          ''/srv/workspaces/A-1/warp-server'', ''main''])]
   \<and> fst (createWorktree ex_env ''workspaces/A-1'' ''A-1'' ex_repo [] ex_world_clone) = None
   \<and> ''warp/A-1-resolve'' \<noteq> ''agent/A-1-resolve''"
  by (simp add: createWorktree_def Let_def ex_env_def ex_world_def ex_world_clone_def
        ex_repo_def one_repo_def filepath_Join_def filepath_Clean_def is_abs_def clean_step_def
        resolve_def path_exists_def is_dir_def workspacesDir_def strings_SplitN2_def filepath_Abs_def
        git_worktree_add_def exec_Run_def logf_def emit_def)

lemma os_Create_effect:
  "os_Create ev p w = (r, w') \<Longrightarrow>
     trace w' = trace w \<and> cwd w' = cwd w \<and> dirs w' = dirs w
     \<and> (case r of None \<Rightarrow> files w' = (files w)(resolve w p \<mapsto> []) | Some e \<Rightarrow> w' = w)"
  by (auto simp: os_Create_def split: if_splits option.splits)

lemma runAgent_create_fails:
  "os_Create ev (filepath_Join [wsd, ''output.log'']) w = (Some e, w1) \<Longrightarrow>
   runAgent ev wsd i cfg w
     = logf Error ''failed to create output log file''
         ([(''key'', Key i), (''logPath'', filepath_Join [wsd, ''output.log''])] @ [(''error'', err_Error e)]) w1"
  by (simp add: runAgent_def Let_def)

lemma runAgent_setup_fails:
  "os_Create ev (filepath_Join [wsd, ''output.log'']) w = (None, w1) \<Longrightarrow>
   setupRepositoryWorktrees ev wsd (Key i) cfg
     [(''key'', Key i), (''logPath'', filepath_Join [wsd, ''output.log''])] w1 = (Some e, w2) \<Longrightarrow>
   runAgent ev wsd i cfg w
     = logf Error ''failed to setup repository worktrees''
         ([(''key'', Key i), (''logPath'', filepath_Join [wsd, ''output.log''])] @ [(''error'', err_Error e)]) w2"
  by (simp add: runAgent_def Let_def)

lemma runAgent_no_dispatch:
  assumes "fst (setupRepositoryWorktrees ev wsd (Key i) cfg
                 [(''key'', Key i), (''logPath'', filepath_Join [wsd, ''output.log''])]
                 (snd (os_Create ev (filepath_Join [wsd, ''output.log'']) w))) \<noteq> None"
  shows "agent_execs (trace (runAgent ev wsd i cfg w)) = agent_execs (trace w)"
proof -
  let ?lp = "filepath_Join [wsd, ''output.log'']"
  obtain r1 w1 where c: "os_Create ev ?lp w = (r1, w1)" by force
  note ce = os_Create_effect[OF c]
  show ?thesis
  proof (cases r1)
    case (Some e)
    with c ce show ?thesis
      by (simp add: runAgent_create_fails logf_def emit_def agent_execs_def execs_append)
  next
    case None
    from assms c obtain e w2 where
      s: "setupRepositoryWorktrees ev wsd (Key i) cfg [(''key'', Key i), (''logPath'', ?lp)] w1 = (Some e, w2)"
      by (metis prod.collapse snd_conv not_None_eq)
    from setup_effect[OF s] obtain new where "trace w2 = trace w1 @ new" "agent_execs new = []"
      by blast
    with c None s ce show ?thesis
      by (simp add: runAgent_setup_fails logf_def emit_def agent_execs_append)
         (simp add: agent_execs_def)
  qed
qed

lemma forRepositories_append:
  "forRepositories ev wsd k lg (pre @ post) w =
     (case forRepositories ev wsd k lg pre w of
        (Some e, w1) \<Rightarrow> (Some e, w1)
      | (None, w1) \<Rightarrow> forRepositories ev wsd k lg post w1)"
  by (induction pre arbitrary: w) (auto split: prod.splits option.splits)

lemma forRepositories_any_failure:
  assumes "fst (createWorktree ev wsd k repo lg (snd (forRepositories ev wsd k lg pre w))) \<noteq> None"
  shows "fst (forRepositories ev wsd k lg (pre @ repo # rest) w) \<noteq> None"
proof -
  obtain r1 w1 where p: "forRepositories ev wsd k lg pre w = (r1, w1)" by force
  show ?thesis
  proof (cases r1)
    case (Some e)
    with p show ?thesis by (simp add: forRepositories_append)
  next
    case None
    with assms p obtain e w2 where "createWorktree ev wsd k repo lg w1 = (Some e, w2)"
      by (metis prod.collapse snd_conv not_None_eq)
    with p None show ?thesis by (simp add: forRepositories_append)
  qed
qed

lemma setup_any_failure:
  assumes "Repositories cfg = pre @ repo # rest"
    and "fst (createWorktree ev wsd k repo lg (snd (forRepositories ev wsd k lg pre w))) \<noteq> None"
  shows "fst (setupRepositoryWorktrees ev wsd k cfg lg w) \<noteq> None"
  using forRepositories_any_failure[OF assms(2), of rest] assms(1)
  by (simp add: setupRepositoryWorktrees_def)

text \<open>
  C4. Take an issue that \<^verbatim>\<open>handleIssue\<close> has claimed, and the goroutine running at
  any later point. If \<^verbatim>\<open>createWorktree\<close> fails for a configured repository, at
  whatever position of the configuration, in the world the loop has reached there (or
  provisioning fails for any reason), then provisioning as a whole fails,
  \<^verbatim>\<open>runAgent\<close> runs no agent process, the workspace directory is still there, and
  every later call of \<^verbatim>\<open>handleIssue\<close> for the issue, after whatever else happens,
  only logs at debug level that the issue was already handled: it is not retried.
  And \<^verbatim>\<open>createWorktree\<close> does fail, in any world, for a repository whose clone is
  not a directory on disk.
\<close>

theorem C4_failed_provisioning_keeps_the_claim:
  "(spawned (trace (snd (handleIssue ev0 cfg i w))) \<noteq> spawned (trace w)
      \<and> wa = history steps1 (snd (handleIssue ev0 cfg i w))
      \<and> wsd = filepath_Join [workspacesDir, Key i]
      \<and> lg = [(''key'', Key i), (''logPath'', filepath_Join [wsd, ''output.log''])]
      \<and> wp = snd (os_Create ev (filepath_Join [wsd, ''output.log'']) wa)
      \<and> (fst (setupRepositoryWorktrees ev wsd (Key i) cfg lg wp) \<noteq> None
          \<or> Repositories cfg = pre @ repo # rest
            \<and> fst (createWorktree ev wsd (Key i) repo lg
                     (snd (forRepositories ev wsd (Key i) lg pre wp))) \<noteq> None)
     \<longrightarrow> fst (setupRepositoryWorktrees ev wsd (Key i) cfg lg wp) \<noteq> None
        \<and> agent_execs (trace (runAgent ev wsd i cfg wa)) = agent_execs (trace wa)
        \<and> path_exists (runAgent ev wsd i cfg wa) wsd
        \<and> (\<forall>steps ev' cfg'.
              handleIssue ev' cfg' i (history steps (runAgent ev wsd i cfg wa))
                = (None, logf Debug ''issue was already handled'' [(''key'', Key i)]
                           (history steps (runAgent ev wsd i cfg wa)))))
   \<and> (strings_SplitN2 (URL repo2) = [owner, name]
      \<and> filepath_Abs ev2 w2 (filepath_Join [''repos'', name]) = Inr rd \<and> \<not> is_dir w2 rd
     \<longrightarrow> fst (createWorktree ev2 wsd2 k2 repo2 lg2 w2) \<noteq> None)"
proof (intro conjI impI allI)
  assume a: "spawned (trace (snd (handleIssue ev0 cfg i w))) \<noteq> spawned (trace w)
      \<and> wa = history steps1 (snd (handleIssue ev0 cfg i w))
      \<and> wsd = filepath_Join [workspacesDir, Key i]
      \<and> lg = [(''key'', Key i), (''logPath'', filepath_Join [wsd, ''output.log''])]
      \<and> wp = snd (os_Create ev (filepath_Join [wsd, ''output.log'']) wa)
      \<and> (fst (setupRepositoryWorktrees ev wsd (Key i) cfg lg wp) \<noteq> None
          \<or> Repositories cfg = pre @ repo # rest
            \<and> fst (createWorktree ev wsd (Key i) repo lg
                     (snd (forRepositories ev wsd (Key i) lg pre wp))) \<noteq> None)"
  then show f: "fst (setupRepositoryWorktrees ev wsd (Key i) cfg lg wp) \<noteq> None"
    using setup_any_failure by blast
  from a f show "agent_execs (trace (runAgent ev wsd i cfg wa)) = agent_execs (trace wa)"
    using runAgent_no_dispatch[of ev wsd i cfg wa] by blast
  from a handleIssue_claimed_exists[of ev0 cfg i w]
  have "path_exists wa wsd" by (simp add: history_exists)
  then show ex: "path_exists (runAgent ev wsd i cfg wa) wsd"
    using extends_exists[OF extends_runAgent] by blast
  fix steps ev' cfg'
  from ex a
  have "path_exists (history steps (runAgent ev wsd i cfg wa)) (filepath_Join [workspacesDir, Key i])"
    by (simp add: history_exists)
  then show "handleIssue ev' cfg' i (history steps (runAgent ev wsd i cfg wa))
                = (None, logf Debug ''issue was already handled'' [(''key'', Key i)]
                           (history steps (runAgent ev wsd i cfg wa)))"
    by (rule handleIssue_already)
next
  assume "strings_SplitN2 (URL repo2) = [owner, name]
      \<and> filepath_Abs ev2 w2 (filepath_Join [''repos'', name]) = Inr rd \<and> \<not> is_dir w2 rd"
  then show "fst (createWorktree ev2 wsd2 k2 repo2 lg2 w2) \<noteq> None"
    using createWorktree_missing_clone by blast
qed

text \<open>
  Two repositories are configured and only the first has a clone: the first worktree
  is created, the second fails, and no agent is run.
\<close>

theorem C4_witness:
  "spawned (trace (snd (handleIssue ex_env two_repos issue_A1 ex_world_clone)))
     \<noteq> spawned (trace ex_world_clone)
   \<and> Repositories two_repos = [ex_repo] @ ex_repo_b # []
   \<and> fst (forRepositories ex_env ''workspaces/A-1'' ''A-1''
            [(''key'', ''A-1''), (''logPath'', ''workspaces/A-1/output.log'')] [ex_repo]
            (snd (os_Create ex_env ''workspaces/A-1/output.log''
                    (snd (handleIssue ex_env two_repos issue_A1 ex_world_clone))))) = None
   \<and> \<not> is_dir (snd (forRepositories ex_env ''workspaces/A-1'' ''A-1''
                      [(''key'', ''A-1''), (''logPath'', ''workspaces/A-1/output.log'')] [ex_repo]
                      (snd (os_Create ex_env ''workspaces/A-1/output.log''
                              (snd (handleIssue ex_env two_repos issue_A1 ex_world_clone))))))
            ''/srv/repos/warp-client''
   \<and> fst (createWorktree ex_env ''workspaces/A-1'' ''A-1'' ex_repo_b
            [(''key'', ''A-1''), (''logPath'', ''workspaces/A-1/output.log'')]
            (snd (forRepositories ex_env ''workspaces/A-1'' ''A-1''
                    [(''key'', ''A-1''), (''logPath'', ''workspaces/A-1/output.log'')] [ex_repo]
                    (snd (os_Create ex_env ''workspaces/A-1/output.log''
                            (snd (handleIssue ex_env two_repos issue_A1 ex_world_clone))))))) \<noteq> None
   \<and> fst (setupRepositoryWorktrees ex_env ''workspaces/A-1'' ''A-1'' two_repos
            [(''key'', ''A-1''), (''logPath'', ''workspaces/A-1/output.log'')]
            (snd (os_Create ex_env ''workspaces/A-1/output.log''
                    (snd (handleIssue ex_env two_repos issue_A1 ex_world_clone))))) \<noteq> None
   \<and> agent_execs (trace (runAgent ex_env ''workspaces/A-1'' issue_A1 two_repos
                           (snd (handleIssue ex_env two_repos issue_A1 ex_world_clone))))
       = agent_execs (trace (snd (handleIssue ex_env two_repos issue_A1 ex_world_clone)))
   \<and> path_exists (runAgent ex_env ''workspaces/A-1'' issue_A1 two_repos
                    (snd (handleIssue ex_env two_repos issue_A1 ex_world_clone))) ''workspaces/A-1''
   \<and> handleIssue ex_env two_repos issue_A1
        (history [Attempt ex_env two_repos issue_A2]
           (runAgent ex_env ''workspaces/A-1'' issue_A1 two_repos
              (snd (handleIssue ex_env two_repos issue_A1 ex_world_clone))))
      = (None, logf Debug ''issue was already handled'' [(''key'', ''A-1'')]
           (history [Attempt ex_env two_repos issue_A2]
              (runAgent ex_env ''workspaces/A-1'' issue_A1 two_repos
                 (snd (handleIssue ex_env two_repos issue_A1 ex_world_clone)))))"
proof -
  let ?w1 = "snd (handleIssue ex_env two_repos issue_A1 ex_world_clone)"
  let ?ra = "runAgent ex_env ''workspaces/A-1'' issue_A1 two_repos ?w1"
  let ?lg = "[(''key'', ''A-1''), (''logPath'', ''workspaces/A-1/output.log'')]"
  let ?wp = "snd (os_Create ex_env ''workspaces/A-1/output.log'' ?w1)"
  let ?wr = "snd (forRepositories ex_env ''workspaces/A-1'' ''A-1'' ?lg [ex_repo] ?wp)"
  have d: "filepath_Join [workspacesDir, ''A-1''] = ''workspaces/A-1''"
    by (simp add: filepath_Join_def filepath_Clean_def is_abs_def clean_step_def
          workspacesDir_def)
  have j: "filepath_Join [''workspaces/A-1'', ''output.log''] = ''workspaces/A-1/output.log''"
    by (simp add: filepath_Join_def filepath_Clean_def is_abs_def clean_step_def)
  have k: "Key issue_A1 = ''A-1''" by (simp add: issue_A1_def)
  have hn: "history [] ?w1 = ?w1" by (simp add: history_def)
  have h1: "spawned (trace ?w1) \<noteq> spawned (trace ex_world_clone)"
    by (simp add: handleIssue_cases Let_def ex_env_def ex_world_def ex_world_clone_def
          issue_A1_def filepath_Join_def filepath_Clean_def is_abs_def clean_step_def resolve_def
          path_exists_def workspacesDir_def logf_def emit_def)
  have h2: "Repositories two_repos = [ex_repo] @ ex_repo_b # []"
    by (simp add: two_repos_def)
  have h3: "fst (forRepositories ex_env ''workspaces/A-1'' ''A-1'' ?lg [ex_repo] ?wp) = None"
    by (simp add: createWorktree_def Let_def ex_env_def ex_world_def ex_world_clone_def
          ex_repo_def issue_A1_def filepath_Join_def filepath_Clean_def is_abs_def clean_step_def
          resolve_def path_exists_def is_dir_def workspacesDir_def strings_SplitN2_def
          filepath_Abs_def git_worktree_add_def exec_Run_def logf_def emit_def os_Create_def
          handleIssue_cases)
  have h4: "strings_SplitN2 (URL ex_repo_b) = [''warpdotdev'', ''warp-client'']
      \<and> filepath_Abs ex_env ?wr (filepath_Join [''repos'', ''warp-client'']) = Inr ''/srv/repos/warp-client''
      \<and> \<not> is_dir ?wr ''/srv/repos/warp-client''"
    by (simp add: createWorktree_def Let_def ex_env_def ex_world_def ex_world_clone_def
          ex_repo_def ex_repo_b_def issue_A1_def filepath_Join_def filepath_Clean_def is_abs_def
          clean_step_def resolve_def path_exists_def is_dir_def workspacesDir_def
          strings_SplitN2_def filepath_Abs_def git_worktree_add_def exec_Run_def logf_def emit_def
          os_Create_def handleIssue_cases)
  note T = C4_failed_provisioning_keeps_the_claim
         [where ?ev0.0 = ex_env and cfg = two_repos and i = issue_A1 and w = ex_world_clone
            and wa = "history [] ?w1" and ?steps1.0 = "[]"
            and wsd = "filepath_Join [workspacesDir, Key issue_A1]" and ev = ex_env
            and lg = "[(''key'', Key issue_A1),
                       (''logPath'', filepath_Join [filepath_Join [workspacesDir, Key issue_A1], ''output.log''])]"
            and wp = "snd (os_Create ex_env
                        (filepath_Join [filepath_Join [workspacesDir, Key issue_A1], ''output.log''])
                        (history [] ?w1))"
            and pre = "[ex_repo]" and repo = ex_repo_b and rest = "[]"
            and ?repo2.0 = ex_repo_b and owner = "''warpdotdev''" and name = "''warp-client''"
            and ?ev2.0 = ex_env and ?w2.0 = ?wr and rd = "''/srv/repos/warp-client''"
            and ?wsd2.0 = "''workspaces/A-1''" and ?k2.0 = "''A-1''" and ?lg2.0 = ?lg,
          unfolded hn d j k]
  from T h4
  have c0: "fst (createWorktree ex_env ''workspaces/A-1'' ''A-1'' ex_repo_b ?lg ?wr) \<noteq> None"
    by blast
  from T h1 h2 c0
  have c1: "fst (setupRepositoryWorktrees ex_env ''workspaces/A-1'' ''A-1'' two_repos ?lg ?wp) \<noteq> None"
    and c2: "agent_execs (trace ?ra) = agent_execs (trace ?w1)"
    and c3: "path_exists ?ra ''workspaces/A-1''"
    and c4: "\<And>steps ev' cfg'. handleIssue ev' cfg' issue_A1 (history steps ?ra)
               = (None, logf Debug ''issue was already handled'' [(''key'', ''A-1'')] (history steps ?ra))"
    by blast+
  from h1 h2 h3 h4 c0 c1 c2 c3 c4[of ex_env two_repos "[Attempt ex_env two_repos issue_A2]"]
  show ?thesis by blast
qed

lemma setup_no_repos:
  "Repositories cfg = [] \<Longrightarrow>
   setupRepositoryWorktrees ev wsd k cfg lg w
     = (None, logf Debug ''no repositories configured, skipping worktree setup'' lg w)"
  by (simp add: setupRepositoryWorktrees_def)

text \<open>
  C10. When \<^verbatim>\<open>os.Create\<close> succeeds, the log file exists and is empty in the world
  that worktree provisioning starts from, whatever it held before. If provisioning
  then fails, \<^verbatim>\<open>runAgent\<close> only logs the failure on top of what provisioning left:
  the workspace still holds the empty log file and no agent process has been run.
\<close>

theorem C10_log_file_precedes_provisioning:
  "fst (os_Create ev lp w) = None \<and> lp = filepath_Join [wsd, ''output.log'']
   \<longrightarrow> files (snd (os_Create ev lp w)) (resolve w lp) = Some []
     \<and> (\<forall>e w2. setupRepositoryWorktrees ev wsd (Key i) cfg [(''key'', Key i), (''logPath'', lp)]
                  (snd (os_Create ev lp w)) = (Some e, w2)
          \<longrightarrow> runAgent ev wsd i cfg w
                = logf Error ''failed to setup repository worktrees''
                    ([(''key'', Key i), (''logPath'', lp)] @ [(''error'', err_Error e)]) w2
              \<and> files (runAgent ev wsd i cfg w) (resolve w lp) = Some []
              \<and> agent_execs (trace (runAgent ev wsd i cfg w)) = agent_execs (trace w))"
proof (intro impI conjI allI)
  assume a: "fst (os_Create ev lp w) = None \<and> lp = filepath_Join [wsd, ''output.log'']"
  then obtain w1 where c: "os_Create ev lp w = (None, w1)" by (metis prod.collapse)
  from os_Create_effect[OF c] have f1: "files w1 = (files w)(resolve w lp \<mapsto> [])" by simp
  then show "files (snd (os_Create ev lp w)) (resolve w lp) = Some []" using c by simp
  fix e w2
  assume s: "setupRepositoryWorktrees ev wsd (Key i) cfg [(''key'', Key i), (''logPath'', lp)]
                  (snd (os_Create ev lp w)) = (Some e, w2)"
  with c have s': "setupRepositoryWorktrees ev wsd (Key i) cfg [(''key'', Key i), (''logPath'', lp)] w1
       = (Some e, w2)" by simp
  from a c s' show r: "runAgent ev wsd i cfg w
                = logf Error ''failed to setup repository worktrees''
                    ([(''key'', Key i), (''logPath'', lp)] @ [(''error'', err_Error e)]) w2"
    using runAgent_setup_fails[of ev wsd w w1 i cfg e w2] by simp
  from setup_effect[OF s'] have "files w2 = files w1" by simp
  with f1 r show "files (runAgent ev wsd i cfg w) (resolve w lp) = Some []"
    by (simp add: logf_def emit_def)
  from a s show "agent_execs (trace (runAgent ev wsd i cfg w)) = agent_execs (trace w)"
    using runAgent_no_dispatch[of ev wsd i cfg w] by simp
qed

text \<open>The clone is missing: A-1's workspace is left with an empty output.log.\<close>

theorem C10_witness:
  "fst (os_Create ex_env ''workspaces/A-1/output.log'' (snd (handleIssue ex_env one_repo issue_A1 ex_world))) = None
   \<and> fst (setupRepositoryWorktrees ex_env ''workspaces/A-1'' ''A-1'' one_repo
            [(''key'', ''A-1''), (''logPath'', ''workspaces/A-1/output.log'')]
            (snd (os_Create ex_env ''workspaces/A-1/output.log''
                    (snd (handleIssue ex_env one_repo issue_A1 ex_world)))))
       = Some (WrapError ''failed to create worktree for warpdotdev/warp-server: ''
                 (WrapError ''failed to create worktree: ''
                    (PathError ''chdir'' ''/srv/repos/warp-server'' ENOENT) '' (output: )'') [])
   \<and> files (runAgent ex_env ''workspaces/A-1'' issue_A1 one_repo
               (snd (handleIssue ex_env one_repo issue_A1 ex_world)))
        ''/srv/workspaces/A-1/output.log'' = Some []
   \<and> agent_execs (trace (runAgent ex_env ''workspaces/A-1'' issue_A1 one_repo
                           (snd (handleIssue ex_env one_repo issue_A1 ex_world)))) = []"
proof -
  let ?w1 = "snd (handleIssue ex_env one_repo issue_A1 ex_world)"
  let ?lp = "filepath_Join [''workspaces/A-1'', ''output.log'']"
  let ?lg = "[(''key'', Key issue_A1), (''logPath'', ?lp)]"
  let ?e = "WrapError ''failed to create worktree for warpdotdev/warp-server: ''
                 (WrapError ''failed to create worktree: ''
                    (PathError ''chdir'' ''/srv/repos/warp-server'' ENOENT) '' (output: )'') []"
  let ?ra = "runAgent ex_env ''workspaces/A-1'' issue_A1 one_repo ?w1"
  have k: "Key issue_A1 = ''A-1''" by (simp add: issue_A1_def)
  have j: "?lp = ''workspaces/A-1/output.log''" by (simp add: filepath_Join_def filepath_Clean_def is_abs_def clean_step_def resolve_def path_exists_def is_dir_def workspacesDir_def)
  have h1: "fst (os_Create ex_env ?lp ?w1) = None"
    by (simp add: os_Create_def handleIssue_cases Let_def ex_env_def ex_world_def ex_repo_def
          one_repo_def issue_A1_def filepath_Join_def filepath_Clean_def is_abs_def clean_step_def
          resolve_def path_exists_def is_dir_def workspacesDir_def logf_def emit_def)
  have h2a: "fst (setupRepositoryWorktrees ex_env ''workspaces/A-1'' (Key issue_A1) one_repo ?lg
                    (snd (os_Create ex_env ?lp ?w1))) = Some ?e"
    by (simp add: setupRepositoryWorktrees_def createWorktree_def Let_def ex_env_def
          ex_world_def ex_repo_def one_repo_def issue_A1_def filepath_Join_def filepath_Clean_def
          is_abs_def clean_step_def resolve_def path_exists_def is_dir_def workspacesDir_def
          strings_SplitN2_def filepath_Abs_def git_worktree_add_def exec_Run_def logf_def emit_def
          os_Create_def handleIssue_cases)
  then have h2: "setupRepositoryWorktrees ex_env ''workspaces/A-1'' (Key issue_A1) one_repo ?lg
                    (snd (os_Create ex_env ?lp ?w1))
             = (Some ?e, snd (setupRepositoryWorktrees ex_env ''workspaces/A-1'' (Key issue_A1) one_repo
                                ?lg (snd (os_Create ex_env ?lp ?w1))))"
    by (metis prod.collapse)
  have r: "resolve ?w1 ?lp = ''/srv/workspaces/A-1/output.log''"
    by (simp add: handleIssue_cases Let_def ex_env_def ex_world_def ex_repo_def one_repo_def
          issue_A1_def filepath_Join_def filepath_Clean_def is_abs_def clean_step_def resolve_def
          path_exists_def is_dir_def workspacesDir_def logf_def emit_def)
  have t: "agent_execs (trace ?w1) = []"
    by (simp add: handleIssue_cases Let_def ex_env_def ex_world_def ex_repo_def one_repo_def
          issue_A1_def filepath_Join_def filepath_Clean_def is_abs_def clean_step_def resolve_def
          path_exists_def is_dir_def workspacesDir_def logf_def emit_def agent_execs_def)
  from C10_log_file_precedes_provisioning
         [where ev = ex_env and lp = ?lp and w = ?w1 and wsd = "''workspaces/A-1''"
            and i = issue_A1 and cfg = one_repo] h1 h2
  have c1: "files ?ra (resolve ?w1 ?lp) = Some []"
    and c2: "agent_execs (trace ?ra) = agent_execs (trace ?w1)"
    by blast+
  from h1[unfolded j] h2a[unfolded j k] c1[unfolded r] c2[unfolded t]
  show ?thesis by blast
qed

lemma exec_Run_out:
  "is_dir w d \<Longrightarrow> snd (fst (exec_Run ev d argv w)) = snd (cmd_result ev d argv)"
  by (simp add: exec_Run_def Let_def split: prod.splits option.splits)

lemma agent_tail_effect:
  fixes lg :: "(string \<times> string) list"
  defines "res \<equiv> \<lambda>ev wsd argv lp lg w4.
     (case exec_Run ev wsd argv w4 of
        ((r, out), w5) \<Rightarrow>
          (let w6 = w5\<lparr>files := (files w5)(resolve w5 lp \<mapsto> out)\<rparr>
           in case r of
                Some e \<Rightarrow> logf Error ''warp agent command failed'' (lg @ [(''error'', err_Error e)]) w6
              | None \<Rightarrow> logf Info ''warp agent completed'' lg w6))"
  shows "execs (trace (res ev wsd argv lp lg w4)) = execs (trace w4) @ [(wsd, argv)]
     \<and> dirs (res ev wsd argv lp lg w4) = dirs w4
     \<and> files (res ev wsd argv lp lg w4)
         = (files w4)(resolve w4 lp \<mapsto> snd (fst (exec_Run ev wsd argv w4)))"
proof -
  obtain r out w5 where x: "exec_Run ev wsd argv w4 = ((r, out), w5)" by (metis prod.exhaust)
  from exec_Run_effect[OF x] have w5: "w5 = emit (Exec wsd argv) w4" by simp
  show ?thesis
    unfolding res_def x
    by (cases r) (simp_all add: w5 Let_def logf_def emit_def execs_append resolve_def)
qed

lemma runAgent_dispatch:
  assumes c: "os_Create ev (filepath_Join [wsd, ''output.log'']) w = (None, w1)"
    and s: "setupRepositoryWorktrees ev wsd (Key i) cfg
              [(''key'', Key i), (''logPath'', filepath_Join [wsd, ''output.log''])] w1 = (None, w2)"
    and m: "json_MarshalIndent ev i = Inr js"
  defines "argv \<equiv> [''warp-cli-dev'', ''agent'', ''run'', ''--prompt'', agent_prompt i js wsd, ''--debug'']
                   @ (if setting ev ''profile_id'' \<noteq> [] then [''--profile'', setting ev ''profile_id''] else [])"
  shows "execs (trace (runAgent ev wsd i cfg w)) = execs (trace w2) @ [(wsd, argv)]
     \<and> dirs (runAgent ev wsd i cfg w) = dirs w2
     \<and> (is_dir w2 wsd \<longrightarrow>
          files (runAgent ev wsd i cfg w) (resolve w2 (filepath_Join [wsd, ''output.log'']))
            = Some (snd (cmd_result ev wsd argv)))"
proof -
  let ?lp = "filepath_Join [wsd, ''output.log'']"
  let ?lg = "[(''key'', Key i), (''logPath'', ?lp)]"
  define w4 where "w4 = logf Info ''starting warp agent'' ?lg
     (if setting ev ''profile_id'' \<noteq> []
      then logf Info ''using warp profile for warp-cli'' (?lg @ [(''profile_id'', setting ev ''profile_id'')]) w2
      else w2)"
  have f4: "execs (trace w4) = execs (trace w2)" "dirs w4 = dirs w2" "resolve w4 ?lp = resolve w2 ?lp"
    "is_dir w4 wsd = is_dir w2 wsd"
    by (simp_all add: w4_def logf_def emit_def execs_append resolve_def is_dir_def)
  have eq: "runAgent ev wsd i cfg w =
     (case exec_Run ev wsd argv w4 of
        ((r, out), w5) \<Rightarrow>
          (let w6 = w5\<lparr>files := (files w5)(resolve w5 ?lp \<mapsto> out)\<rparr>
           in case r of
                Some e \<Rightarrow> logf Error ''warp agent command failed'' (?lg @ [(''error'', err_Error e)]) w6
              | None \<Rightarrow> logf Info ''warp agent completed'' ?lg w6))"
    unfolding w4_def argv_def by (simp add: runAgent_def Let_def c s m)
  note t = agent_tail_effect[where ev = ev and wsd = wsd and argv = argv and lp = ?lp and lg = ?lg and ?w4.0 = w4, folded eq]
  from t f4 exec_Run_out[of w4 wsd ev argv] show ?thesis by simp
qed


text \<open>
  C8. With no repository configured, worktree provisioning returns success and only
  logs at debug level. If the log file could be created, the issue serialised and
  the workspace directory is there, \<^verbatim>\<open>runAgent\<close> runs exactly one command, the agent
  in the workspace directory with the prompt, makes no directory, and leaves the
  agent's output in the log file. And a call of \<^verbatim>\<open>handleIssue\<close> that finds no path
  at the workspace directory and whose \<^verbatim>\<open>os.Mkdir\<close> is not refused returns no error,
  starts the goroutine for that workspace, and leaves the workspace directory in place.
\<close>

theorem C8_no_repositories_still_dispatches:
  "(Repositories cfg = [] \<and> fst (os_Create ev (filepath_Join [wsd, ''output.log'']) w) = None
      \<and> json_MarshalIndent ev i = Inr js \<and> is_dir w wsd
     \<longrightarrow> setupRepositoryWorktrees ev wsd (Key i) cfg lg w'
          = (None, logf Debug ''no repositories configured, skipping worktree setup'' lg w')
        \<and> execs (trace (runAgent ev wsd i cfg w))
          = execs (trace w) @
            [(wsd, [''warp-cli-dev'', ''agent'', ''run'', ''--prompt'', agent_prompt i js wsd, ''--debug'']
                   @ (if setting ev ''profile_id'' \<noteq> [] then [''--profile'', setting ev ''profile_id'']
                      else []))]
        \<and> dirs (runAgent ev wsd i cfg w) = dirs w
        \<and> files (runAgent ev wsd i cfg w) (resolve w (filepath_Join [wsd, ''output.log'']))
          = Some (snd (cmd_result ev wsd
                 ([''warp-cli-dev'', ''agent'', ''run'', ''--prompt'', agent_prompt i js wsd, ''--debug'']
                   @ (if setting ev ''profile_id'' \<noteq> [] then [''--profile'', setting ev ''profile_id'']
                      else [])))))
   \<and> (\<not> path_exists w0 (filepath_Join [workspacesDir, Key i])
      \<and> mkdir_fault ev (filepath_Join [workspacesDir, Key i]) = None
     \<longrightarrow> fst (handleIssue ev cfg i w0) = None
        \<and> spawned (trace (snd (handleIssue ev cfg i w0)))
          = spawned (trace w0) @ [(filepath_Join [workspacesDir, Key i], i, cfg)]
        \<and> is_dir (snd (handleIssue ev cfg i w0)) (filepath_Join [workspacesDir, Key i]))"
proof (intro conjI impI)
  let ?lp = "filepath_Join [wsd, ''output.log'']"
  let ?lg = "[(''key'', Key i), (''logPath'', ?lp)]"
  let ?argv = "[''warp-cli-dev'', ''agent'', ''run'', ''--prompt'', agent_prompt i js wsd, ''--debug'']
                   @ (if setting ev ''profile_id'' \<noteq> [] then [''--profile'', setting ev ''profile_id'']
                      else [])"
  assume a: "Repositories cfg = [] \<and> fst (os_Create ev ?lp w) = None
      \<and> json_MarshalIndent ev i = Inr js \<and> is_dir w wsd"
  then show "setupRepositoryWorktrees ev wsd (Key i) cfg lg w'
          = (None, logf Debug ''no repositories configured, skipping worktree setup'' lg w')"
    by (simp add: setup_no_repos)
  from a obtain w1 where c: "os_Create ev ?lp w = (None, w1)" by (metis prod.collapse)
  note ce = os_Create_effect[OF c]
  let ?w2 = "logf Debug ''no repositories configured, skipping worktree setup'' ?lg w1"
  have s: "setupRepositoryWorktrees ev wsd (Key i) cfg ?lg w1 = (None, ?w2)"
    using a by (simp add: setup_no_repos)
  from a have m: "json_MarshalIndent ev i = Inr js" by simp
  note d = runAgent_dispatch[OF c s m]
  from ce have e1: "trace w1 = trace w" and e2: "cwd w1 = cwd w" and e3: "dirs w1 = dirs w"
    by simp_all
  have t1: "execs (trace ?w2) = execs (trace w)"
    by (simp add: logf_def emit_def execs_append e1)
  have t2: "dirs ?w2 = dirs w"
    by (simp add: logf_def emit_def e3)
  have t3: "resolve ?w2 ?lp = resolve w ?lp"
    by (simp add: logf_def emit_def resolve_def e2)
  have "is_dir ?w2 wsd = is_dir w wsd"
    by (simp add: logf_def emit_def is_dir_def resolve_def e2 e3)
  with a have t4: "is_dir ?w2 wsd" by blast
  from d have d1: "execs (trace (runAgent ev wsd i cfg w)) = execs (trace ?w2) @ [(wsd, ?argv)]"
    by (rule conjunct1)
  from d have d2: "dirs (runAgent ev wsd i cfg w) = dirs ?w2"
    by (rule conjunct1[OF conjunct2])
  from d have d3: "is_dir ?w2 wsd \<longrightarrow>
          files (runAgent ev wsd i cfg w) (resolve ?w2 ?lp) = Some (snd (cmd_result ev wsd ?argv))"
    by (rule conjunct2[OF conjunct2])
  from d1 show "execs (trace (runAgent ev wsd i cfg w)) = execs (trace w) @ [(wsd, ?argv)]"
    unfolding t1 .
  from d2 show "dirs (runAgent ev wsd i cfg w) = dirs w" unfolding t2 .
  from d3 t4 show "files (runAgent ev wsd i cfg w) (resolve w ?lp) = Some (snd (cmd_result ev wsd ?argv))"
    unfolding t3 by (rule mp)
next
  assume b: "\<not> path_exists w0 (filepath_Join [workspacesDir, Key i])
      \<and> mkdir_fault ev (filepath_Join [workspacesDir, Key i]) = None"
  then show "fst (handleIssue ev cfg i w0) = None"
    by (simp add: handleIssue_cases Let_def)
  from b show "spawned (trace (snd (handleIssue ev cfg i w0)))
          = spawned (trace w0) @ [(filepath_Join [workspacesDir, Key i], i, cfg)]"
    by (simp add: handleIssue_cases Let_def logf_def emit_def spawned_append)
  from b show "is_dir (snd (handleIssue ev cfg i w0)) (filepath_Join [workspacesDir, Key i])"
    by (simp add: handleIssue_cases Let_def logf_def emit_def is_dir_def resolve_def)
qed


text \<open>A-1 is claimed and dispatched in a deployment without repositories.\<close>

theorem C8_witness:
  "Repositories no_repos = []
   \<and> fst (os_Create ex_env (filepath_Join [''workspaces/A-1'', ''output.log''])
           (snd (handleIssue ex_env no_repos issue_A1 ex_world))) = None
   \<and> is_dir (snd (handleIssue ex_env no_repos issue_A1 ex_world)) ''workspaces/A-1''
   \<and> spawned (trace (snd (handleIssue ex_env no_repos issue_A1 ex_world)))
       = [(''workspaces/A-1'', issue_A1, no_repos)]
   \<and> execs (trace (runAgent ex_env ''workspaces/A-1'' issue_A1 no_repos
                     (snd (handleIssue ex_env no_repos issue_A1 ex_world))))
       = execs (trace (snd (handleIssue ex_env no_repos issue_A1 ex_world))) @
         [(''workspaces/A-1'',
           [''warp-cli-dev'', ''agent'', ''run'', ''--prompt'',
            agent_prompt issue_A1 ''{}'' ''workspaces/A-1'', ''--debug''])]
   \<and> dirs (runAgent ex_env ''workspaces/A-1'' issue_A1 no_repos
              (snd (handleIssue ex_env no_repos issue_A1 ex_world)))
       = dirs (snd (handleIssue ex_env no_repos issue_A1 ex_world))"
proof -
  let ?w1 = "snd (handleIssue ex_env no_repos issue_A1 ex_world)"
  let ?ra = "runAgent ex_env ''workspaces/A-1'' issue_A1 no_repos ?w1"
  have d: "filepath_Join [workspacesDir, Key issue_A1] = ''workspaces/A-1''"
    by (simp add: issue_A1_def filepath_Join_def filepath_Clean_def is_abs_def clean_step_def
          resolve_def path_exists_def is_dir_def workspacesDir_def)
  have p: "(if setting ex_env ''profile_id'' \<noteq> [] then [''--profile'', setting ex_env ''profile_id'']
            else []) = []"
    by (simp add: ex_env_def)
  have h1: "Repositories no_repos = []
      \<and> fst (os_Create ex_env (filepath_Join [''workspaces/A-1'', ''output.log'']) ?w1) = None
      \<and> json_MarshalIndent ex_env issue_A1 = Inr ''{}'' \<and> is_dir ?w1 ''workspaces/A-1''"
    by (simp add: os_Create_def handleIssue_cases Let_def ex_env_def ex_world_def no_repos_def
          issue_A1_def filepath_Join_def filepath_Clean_def is_abs_def clean_step_def resolve_def
          path_exists_def is_dir_def workspacesDir_def logf_def emit_def)
  have h2: "\<not> path_exists ex_world (filepath_Join [workspacesDir, Key issue_A1])
      \<and> mkdir_fault ex_env (filepath_Join [workspacesDir, Key issue_A1]) = None"
    by (simp add: ex_env_def ex_world_def no_repos_def issue_A1_def filepath_Join_def
          filepath_Clean_def is_abs_def clean_step_def resolve_def path_exists_def is_dir_def
          workspacesDir_def)
  have s0: "spawned (trace ex_world) = []" by (simp add: ex_world_def)
  note T = C8_no_repositories_still_dispatches
         [where cfg = no_repos and ev = ex_env and wsd = "''workspaces/A-1''" and w = ?w1
            and i = issue_A1 and js = "''{}''" and ?w0.0 = ex_world, unfolded d p s0 append_Nil2 append_Nil]
  from T h1 h2[unfolded d]
  have c1: "execs (trace ?ra) = execs (trace ?w1) @
         [(''workspaces/A-1'',
           [''warp-cli-dev'', ''agent'', ''run'', ''--prompt'',
            agent_prompt issue_A1 ''{}'' ''workspaces/A-1'', ''--debug''])]"
    and c2: "dirs ?ra = dirs ?w1"
    and c3: "spawned (trace ?w1) = [(''workspaces/A-1'', issue_A1, no_repos)]"
    by blast+
  from h1 c1 c2 c3 show ?thesis by blast
qed

subsection \<open>Startup\<close>

lemma SplitN2_no_separator: "CHR ''/'' \<notin> set s \<Longrightarrow> strings_SplitN2 s = [s]"
proof -
  assume "CHR ''/'' \<notin> set s"
  then have e: "dropWhile (\<lambda>c. c \<noteq> CHR ''/'') s = []" by auto
  show ?thesis unfolding strings_SplitN2_def Let_def e by simp
qed

lemma SplitN2_separator:
  assumes "CHR ''/'' \<in> set s"
  shows "\<exists>owner name. strings_SplitN2 s = [owner, name]
           \<and> CHR ''/'' \<notin> set owner \<and> s = owner @ ''/'' @ name"
proof -
  let ?P = "\<lambda>c. c \<noteq> CHR ''/''"
  from assms have ne: "dropWhile ?P s \<noteq> []" by auto
  then obtain c rest where d: "dropWhile ?P s = c # rest" by (cases "dropWhile ?P s") auto
  from hd_dropWhile[OF ne] d have c: "c = CHR ''/''" by simp
  have t: "CHR ''/'' \<notin> set (takeWhile ?P s)" by (auto dest: set_takeWhileD)
  have "s = takeWhile ?P s @ dropWhile ?P s" by simp
  with d c have "s = takeWhile ?P s @ ''/'' @ rest" by simp
  moreover have "strings_SplitN2 s = [takeWhile ?P s, rest]"
    unfolding strings_SplitN2_def Let_def d by simp
  ultimately show ?thesis using t by blast
qed

text \<open>
  C5, as the code has it. With a client and a label, the \<^verbatim>\<open>poll\<close> command fails
  before any polling, leaving the world untouched, when \<^verbatim>\<open>repos.yaml\<close> is read but
  the YAML library cannot unmarshal it. When the library can, the command goes on to
  poll with the configuration it got, whatever the repository URLs in it are: they
  are not looked at. When no path \<^verbatim>\<open>repos.yaml\<close> exists the command polls with an
  empty configuration, for which worktree provisioning is a no-op. A repository URL
  is refused only by \<^verbatim>\<open>createWorktree\<close>, and exactly when it holds no separator:
  then \<^verbatim>\<open>createWorktree\<close> returns the format error and does nothing else. A URL
  with a separator is cut at its first one into an owner without separator and a
  name, whatever the name holds, and \<^verbatim>\<open>createWorktree\<close> never answers it with the
  format error.
\<close>

theorem C5_startup_configuration:
  "(NewJiraClient ev = None \<and> setting ev ''label'' \<noteq> []
      \<and> os_ReadFile ev ''repos.yaml'' w = Inr data \<and> yaml_Unmarshal ev data = Inl m
     \<longrightarrow> pollCmd_RunE ev clients w
          = Some (Some (WrapError ''failed to parse repos.yaml: '' (ErrorString m) []), w))
   \<and> (NewJiraClient ev = None \<and> setting ev ''label'' \<noteq> []
      \<and> os_ReadFile ev ''repos.yaml'' w = Inr data \<and> yaml_Unmarshal ev data = Inr config
     \<longrightarrow> pollCmd_RunE ev clients w
          = pollForNewIssues ev clients (setting ev ''label'') config
              (logf Info ''loaded repository configuration''
                 [(''count'', itoa (length (Repositories config)))] w))
   \<and> (NewJiraClient ev = None \<and> setting ev ''label'' \<noteq> [] \<and> \<not> path_exists w ''repos.yaml''
     \<longrightarrow> pollCmd_RunE ev clients w
          = pollForNewIssues ev clients (setting ev ''label'') \<lparr>Repositories = []\<rparr>
              (logf Warn ''repos.yaml not found, repository setup will be skipped'' [] w)
        \<and> setupRepositoryWorktrees ev wsd k \<lparr>Repositories = []\<rparr> lg w'
          = (None, logf Debug ''no repositories configured, skipping worktree setup'' lg w'))
   \<and> (length (strings_SplitN2 (URL repo)) \<noteq> 2
     \<longrightarrow> createWorktree ev wsd k repo lg w'
          = (Some (ErrorString (''invalid repository URL format: '' @ URL repo)), w'))
   \<and> (length (strings_SplitN2 (URL repo)) \<noteq> 2) = (CHR ''/'' \<notin> set (URL repo))
   \<and> (CHR ''/'' \<in> set (URL repo)
     \<longrightarrow> (\<exists>owner name. strings_SplitN2 (URL repo) = [owner, name]
            \<and> CHR ''/'' \<notin> set owner \<and> URL repo = owner @ ''/'' @ name)
        \<and> fst (createWorktree ev wsd k repo lg w')
            \<noteq> Some (ErrorString (''invalid repository URL format: '' @ URL repo)))"
proof (intro conjI impI)
  assume "NewJiraClient ev = None \<and> setting ev ''label'' \<noteq> []
      \<and> os_ReadFile ev ''repos.yaml'' w = Inr data \<and> yaml_Unmarshal ev data = Inl m"
  then show "pollCmd_RunE ev clients w
          = Some (Some (WrapError ''failed to parse repos.yaml: '' (ErrorString m) []), w)"
    by (simp add: pollCmd_RunE_def loadReposConfig_def Let_def)
next
  assume "NewJiraClient ev = None \<and> setting ev ''label'' \<noteq> []
      \<and> os_ReadFile ev ''repos.yaml'' w = Inr data \<and> yaml_Unmarshal ev data = Inr config"
  then show "pollCmd_RunE ev clients w
          = pollForNewIssues ev clients (setting ev ''label'') config
              (logf Info ''loaded repository configuration''
                 [(''count'', itoa (length (Repositories config)))] w)"
    by (simp add: pollCmd_RunE_def loadReposConfig_def Let_def)
next
  assume a: "NewJiraClient ev = None \<and> setting ev ''label'' \<noteq> [] \<and> \<not> path_exists w ''repos.yaml''"
  then have "os_ReadFile ev ''repos.yaml'' w = Inl (PathError ''open'' ''repos.yaml'' ENOENT)"
    by (simp add: os_ReadFile_def path_exists_def)
  with a show "pollCmd_RunE ev clients w
          = pollForNewIssues ev clients (setting ev ''label'') \<lparr>Repositories = []\<rparr>
              (logf Warn ''repos.yaml not found, repository setup will be skipped'' [] w)"
    by (simp add: pollCmd_RunE_def loadReposConfig_def Let_def)
  show "setupRepositoryWorktrees ev wsd k \<lparr>Repositories = []\<rparr> lg w'
          = (None, logf Debug ''no repositories configured, skipping worktree setup'' lg w')"
    by (simp add: setup_no_repos)
next
  assume "length (strings_SplitN2 (URL repo)) \<noteq> 2"
  then show "createWorktree ev wsd k repo lg w'
          = (Some (ErrorString (''invalid repository URL format: '' @ URL repo)), w')"
    by (simp add: createWorktree_def Let_def)
next
  show "(length (strings_SplitN2 (URL repo)) \<noteq> 2) = (CHR ''/'' \<notin> set (URL repo))"
  proof (cases "CHR ''/'' \<in> set (URL repo)")
    case True
    from SplitN2_separator[OF True] have "length (strings_SplitN2 (URL repo)) = 2" by auto
    with True show ?thesis by simp
  next
    case False
    from SplitN2_no_separator[OF False] have "length (strings_SplitN2 (URL repo)) = 1" by simp
    with False show ?thesis by simp
  qed
next
  assume s: "CHR ''/'' \<in> set (URL repo)"
  from SplitN2_separator[OF s]
  show "\<exists>owner name. strings_SplitN2 (URL repo) = [owner, name]
            \<and> CHR ''/'' \<notin> set owner \<and> URL repo = owner @ ''/'' @ name"
    by blast
  from SplitN2_separator[OF s] have "length (strings_SplitN2 (URL repo)) = 2" by auto
  then show "fst (createWorktree ev wsd k repo lg w')
            \<noteq> Some (ErrorString (''invalid repository URL format: '' @ URL repo))"
    by (auto simp: createWorktree_def Let_def split: sum.splits prod.splits option.splits)
qed

text \<open>
  Against C5 as stated: a \<^verbatim>\<open>repos.yaml\<close> whose only repository URL is \<^verbatim>\<open>foo\<close>
  does not stop the startup. The command polls, drains both pages and starts three
  goroutines with that configuration.
\<close>

theorem C5_counterexample:
  "map_option fst (pollCmd_RunE ex_env_yaml [ex_client] ex_world_yaml) = Some None
   \<and> map_option (drain_view \<circ> trace \<circ> snd) (pollCmd_RunE ex_env_yaml [ex_client] ex_world_yaml)
       = Some [Req [], Hnd ''A-1'', Hnd ''A-2'', Req ''p2'', Hnd ''A-3'']
   \<and> strings_SplitN2 ''foo'' = [''foo'']
   \<and> map_option (spawned \<circ> trace \<circ> snd) (pollCmd_RunE ex_env_yaml [ex_client] ex_world_yaml)
       = Some [(''workspaces/A-1'', issue_A1, \<lparr>Repositories = [\<lparr>URL = ''foo'', Branch = ''main''\<rparr>]\<rparr>),
               (''workspaces/A-2'', issue_A2, \<lparr>Repositories = [\<lparr>URL = ''foo'', Branch = ''main''\<rparr>]\<rparr>),
               (''workspaces/A-3'', issue_A3, \<lparr>Repositories = [\<lparr>URL = ''foo'', Branch = ''main''\<rparr>]\<rparr>)]"
  by (simp add: pollCmd_RunE_def NewJiraClient_def loadReposConfig_def os_ReadFile_def
        pollForNewIssues_def os_MkdirAll_def searchIssues_def searchIssues_loop.simps Let_def
        ex_env_def ex_env_yaml_def ex_yaml_def ex_world_def ex_world_yaml_def issue_A1_def issue_A2_def issue_A3_def ex_page1_def ex_page2_def ex_client_def handleIssue_cases filepath_Join_def filepath_Clean_def is_abs_def clean_step_def resolve_def path_exists_def is_dir_def workspacesDir_def logf_def emit_def pageSize_def strings_SplitN2_def
        itoa.simps)

text \<open>
  A file that is not YAML, a file with the URL \<^verbatim>\<open>foo\<close>, no file at all, worktree
  creation for the URL \<^verbatim>\<open>foo\<close>, and worktree creation for a URL with several
  separators, for which git is run.
\<close>

theorem C5_witness:
  "pollCmd_RunE ex_env_yaml [ex_client] ex_world_bad_yaml
     = Some (Some (WrapError ''failed to parse repos.yaml: '' (ErrorString ''yaml: unmarshal errors'') []),
             ex_world_bad_yaml)
   \<and> pollCmd_RunE ex_env_yaml [ex_client] ex_world_yaml
     = pollForNewIssues ex_env_yaml [ex_client] ''warp-assign''
         \<lparr>Repositories = [\<lparr>URL = ''foo'', Branch = ''main''\<rparr>]\<rparr>
         (logf Info ''loaded repository configuration'' [(''count'', ''1'')] ex_world_yaml)
   \<and> pollCmd_RunE ex_env [ex_client] ex_world
     = pollForNewIssues ex_env [ex_client] ''warp-assign'' \<lparr>Repositories = []\<rparr>
         (logf Warn ''repos.yaml not found, repository setup will be skipped'' [] ex_world)
   \<and> createWorktree ex_env ''workspaces/A-1'' ''A-1'' \<lparr>URL = ''foo'', Branch = ''main''\<rparr> [] ex_world
     = (Some (ErrorString ''invalid repository URL format: foo''), ex_world)
   \<and> CHR ''/'' \<in> set ''https://github.com/o/r''
   \<and> strings_SplitN2 ''https://github.com/o/r'' = [''https:'', ''/github.com/o/r'']
   \<and> fst (createWorktree ex_env ''workspaces/A-1'' ''A-1''
            \<lparr>URL = ''https://github.com/o/r'', Branch = ''main''\<rparr> [] ex_world)
       \<noteq> Some (ErrorString ''invalid repository URL format: https://github.com/o/r'')
   \<and> execs (trace (snd (createWorktree ex_env ''workspaces/A-1'' ''A-1''
                           \<lparr>URL = ''https://github.com/o/r'', Branch = ''main''\<rparr> [] ex_world)))
       = [(''/srv/repos/github.com/o/r'',
           [''git'', ''worktree'', ''add'', ''-b'', ''warp/A-1-resolve'',
            ''/srv/workspaces/A-1/github.com/o/r'', ''main''])]"
proof -
  let ?cfg = "\<lparr>Repositories = [\<lparr>URL = ''foo'', Branch = ''main''\<rparr>]\<rparr>"
  let ?long = "\<lparr>URL = ''https://github.com/o/r'', Branch = ''main''\<rparr>"
  have l: "setting ex_env ''label'' = ''warp-assign''" "setting ex_env_yaml ''label'' = ''warp-assign''"
    by (simp_all add: ex_env_def ex_env_yaml_def)
  have "itoa 1 = ''1''" by code_simp
  then have n: "itoa (length (Repositories ?cfg)) = ''1''" by simp
  have h1: "NewJiraClient ex_env_yaml = None \<and> setting ex_env_yaml ''label'' \<noteq> []
      \<and> os_ReadFile ex_env_yaml ''repos.yaml'' ex_world_bad_yaml = Inr ex_bad_yaml
      \<and> yaml_Unmarshal ex_env_yaml ex_bad_yaml = Inl ''yaml: unmarshal errors''"
    by (simp add: NewJiraClient_def os_ReadFile_def ex_env_def ex_env_yaml_def ex_yaml_def
          ex_bad_yaml_def ex_world_def ex_world_bad_yaml_def filepath_Join_def filepath_Clean_def
          is_abs_def clean_step_def resolve_def)
  have h2: "NewJiraClient ex_env_yaml = None \<and> setting ex_env_yaml ''label'' \<noteq> []
      \<and> os_ReadFile ex_env_yaml ''repos.yaml'' ex_world_yaml = Inr ex_yaml
      \<and> yaml_Unmarshal ex_env_yaml ex_yaml = Inr ?cfg"
    by (simp add: NewJiraClient_def os_ReadFile_def ex_env_def ex_env_yaml_def ex_yaml_def
          ex_world_def ex_world_yaml_def filepath_Join_def filepath_Clean_def is_abs_def
          clean_step_def resolve_def)
  have h3: "NewJiraClient ex_env = None \<and> setting ex_env ''label'' \<noteq> []
      \<and> \<not> path_exists ex_world ''repos.yaml''"
    by (simp add: NewJiraClient_def ex_env_def ex_world_def filepath_Join_def filepath_Clean_def
          is_abs_def clean_step_def resolve_def path_exists_def)
  have h4: "length (strings_SplitN2 (URL \<lparr>URL = ''foo'', Branch = ''main''\<rparr>)) \<noteq> 2"
    by (simp add: strings_SplitN2_def)
  have h5: "CHR ''/'' \<in> set (URL ?long)" by simp
  have u: "''invalid repository URL format: '' @ URL \<lparr>URL = ''foo'', Branch = ''main''\<rparr>
           = ''invalid repository URL format: foo''" by simp
  have u5: "''invalid repository URL format: '' @ URL ?long
           = ''invalid repository URL format: https://github.com/o/r''" by simp
  have e5: "strings_SplitN2 ''https://github.com/o/r'' = [''https:'', ''/github.com/o/r'']
     \<and> execs (trace (snd (createWorktree ex_env ''workspaces/A-1'' ''A-1'' ?long [] ex_world)))
       = [(''/srv/repos/github.com/o/r'',
           [''git'', ''worktree'', ''add'', ''-b'', ''warp/A-1-resolve'',
            ''/srv/workspaces/A-1/github.com/o/r'', ''main''])]"
    by (simp add: createWorktree_def Let_def ex_env_def ex_world_def filepath_Join_def
          filepath_Clean_def is_abs_def clean_step_def resolve_def is_dir_def strings_SplitN2_def
          filepath_Abs_def git_worktree_add_def exec_Run_def logf_def emit_def)
  from C5_startup_configuration
         [where ev = ex_env_yaml and w = ex_world_bad_yaml and data = ex_bad_yaml
            and m = "''yaml: unmarshal errors''" and clients = "[ex_client]"] h1
  have c1: "pollCmd_RunE ex_env_yaml [ex_client] ex_world_bad_yaml
     = Some (Some (WrapError ''failed to parse repos.yaml: '' (ErrorString ''yaml: unmarshal errors'') []),
             ex_world_bad_yaml)"
    by blast
  from C5_startup_configuration
         [where ev = ex_env_yaml and w = ex_world_yaml and data = ex_yaml and config = ?cfg
            and clients = "[ex_client]", unfolded l n] h2[unfolded l]
  have c2: "pollCmd_RunE ex_env_yaml [ex_client] ex_world_yaml
     = pollForNewIssues ex_env_yaml [ex_client] ''warp-assign'' ?cfg
         (logf Info ''loaded repository configuration'' [(''count'', ''1'')] ex_world_yaml)"
    by blast
  from C5_startup_configuration
         [where ev = ex_env and w = ex_world and clients = "[ex_client]", unfolded l] h3[unfolded l]
  have c3: "pollCmd_RunE ex_env [ex_client] ex_world
     = pollForNewIssues ex_env [ex_client] ''warp-assign'' \<lparr>Repositories = []\<rparr>
         (logf Warn ''repos.yaml not found, repository setup will be skipped'' [] ex_world)"
    by blast
  from C5_startup_configuration
         [where repo = "\<lparr>URL = ''foo'', Branch = ''main''\<rparr>" and ev = ex_env
            and wsd = "''workspaces/A-1''" and k = "''A-1''" and lg = "[]" and w' = ex_world,
          unfolded u] h4
  have c4: "createWorktree ex_env ''workspaces/A-1'' ''A-1'' \<lparr>URL = ''foo'', Branch = ''main''\<rparr> [] ex_world
     = (Some (ErrorString ''invalid repository URL format: foo''), ex_world)"
    by blast
  from C5_startup_configuration
         [where repo = ?long and ev = ex_env
            and wsd = "''workspaces/A-1''" and k = "''A-1''" and lg = "[]" and w' = ex_world,
          unfolded u5] h5
  have c5: "fst (createWorktree ex_env ''workspaces/A-1'' ''A-1'' ?long [] ex_world)
       \<noteq> Some (ErrorString ''invalid repository URL format: https://github.com/o/r'')"
    by blast
  have s5: "CHR ''/'' \<in> set ''https://github.com/o/r''" by simp
  from c1 c2 c3 c4 s5 e5 c5 show ?thesis by blast
qed

subsection \<open>The comment payload\<close>

text \<open>
  C9. For every comment text, \<^verbatim>\<open>addComment\<close> submits exactly one payload to the
  tracker, for the given issue: a document node (version 1) holding one paragraph node
  holding one text node that carries the input verbatim. Flattening that document
  gives back exactly the input, whatever the tracker answers.
\<close>

theorem C9_addComment_payload_roundtrip:
  "submitted (trace (snd (addComment client issueKey commentText w)))
     = submitted (trace w) @
       [(issueKey, CommentPayload (CommentNode 1 ''doc'' []
            [CommentNode 0 ''paragraph'' [] [CommentNode 0 ''text'' commentText []]]))]
   \<and> flatten_text (CommentNode 1 ''doc'' []
            [CommentNode 0 ''paragraph'' [] [CommentNode 0 ''text'' commentText []]]) = commentText"
  by (simp add: addComment_def Let_def logf_def emit_def submitted_append
           split: sum.splits prod.splits option.splits)

end
